theory Spec2Isabelle
  imports Complex_Main "HOL-Library.Word"
begin

section \<open>Conventions\<close>

text \<open>
  The firmware computes on single-precision \<open>float\<close>. Outside the delay effect a
  \<open>float\<close> is idealised as a \<^typ>\<open>real\<close>: rounding, infinities and not-a-number values
  are outside the model, except where the source divides by a quantity that can be zero
  (there the quotient is a \<^typ>\<open>real option\<close>, \<open>None\<close> standing for a non-finite
  result); what is proved there is proved of the exact arithmetic, and says nothing about
  the size of the rounding errors of the implementation. The delay effect, where rounding
  decides what the smoothed read position does, computes in binary32: each operation of
  the source is followed by the rounding \<open>f32\<close> defined there. Unsigned 32-bit millisecond
  timestamps are \<^typ>\<open>32 word\<close>, so that subtraction wraps as in the source. Values read
  from hardware (knob readings, switch positions, the clock) are arguments of the operation
  that reads them.
\<close>

section \<open>Soft takeover: \<open>KnobCapture\<close> (parameter\_capture.cpp)\<close>

record KnobCapture =
  captured_knob_value :: real
  frozen_value :: real
  is_frozen :: bool
  threshold :: real

text \<open>The constructor; \<open>threshold\<close> defaults to 0.05 in the header.\<close>

definition KnobCapture_new :: "real \<Rightarrow> KnobCapture" where
  "KnobCapture_new th =
     \<lparr>captured_knob_value = 0, frozen_value = 0, is_frozen = False, threshold = th\<rparr>"

text \<open>\<open>Capture(frozen_value)\<close>; \<open>knob\<close> is what \<open>knob_.Process()\<close> returns in this call.\<close>

definition KnobCapture_Capture :: "real \<Rightarrow> real \<Rightarrow> KnobCapture \<Rightarrow> KnobCapture" where
  "KnobCapture_Capture knob fv c =
     c\<lparr>captured_knob_value := knob, frozen_value := fv, is_frozen := True\<rparr>"

text \<open>\<open>Process()\<close>: the returned value and the updated object.\<close>

definition KnobCapture_Process :: "real \<Rightarrow> KnobCapture \<Rightarrow> real \<times> KnobCapture" where
  "KnobCapture_Process current_knob_value c =
     (if \<not> is_frozen c then (current_knob_value, c)
      else if \<bar>current_knob_value - captured_knob_value c\<bar> \<ge> threshold c
           then (current_knob_value, c\<lparr>is_frozen := False\<rparr>)
      else (frozen_value c, c))"

definition KnobCapture_Reset :: "KnobCapture \<Rightarrow> KnobCapture" where
  "KnobCapture_Reset c = c\<lparr>is_frozen := False\<rparr>"

text \<open>\<open>IsFrozen()\<close>, which the orchestrator calls, reads the flag.\<close>

definition KnobCapture_IsFrozen :: "KnobCapture \<Rightarrow> bool" where
  "KnobCapture_IsFrozen c = is_frozen c"

text \<open>
  Successive \<open>Process()\<close> calls, one per live knob reading, with no \<open>Capture\<close> or
  \<open>Reset\<close> in between: the values returned, in order, and the object afterwards.
\<close>

fun KnobCapture_run :: "KnobCapture \<Rightarrow> real list \<Rightarrow> real list \<times> KnobCapture" where
  "KnobCapture_run c [] = ([], c)"
| "KnobCapture_run c (r # rs) =
     (let (v, c') = KnobCapture_Process r c;
          (vs, c'') = KnobCapture_run c' rs
      in (v # vs, c''))"

section \<open>Hall reverb: decay and Hadamard mixing (hall\_reverb.cpp, hall\_reverb.h)\<close>

text \<open>The scalar members of \<open>HallReverb\<close>, with the defaults of the class.\<close>

record HallReverb =
  hr_sample_rate :: real
  hr_lfo_phase_inc :: real
  hr_mod_depth :: real
  hr_decay :: real
  hr_diffusion_coeff :: real

definition HallReverb_new :: HallReverb where
  "HallReverb_new =
     \<lparr>hr_sample_rate = 48000, hr_lfo_phase_inc = 0, hr_mod_depth = 1.5,
      hr_decay = 0.85, hr_diffusion_coeff = 0.5\<rparr>"

definition HallReverb_SetDecay :: "real \<Rightarrow> HallReverb \<Rightarrow> HallReverb" where
  "HallReverb_SetDecay decay r =
     r\<lparr>hr_decay := (if decay > 0.999 then 0.999 else (if decay < 0 then 0 else decay))\<rparr>"

definition HallReverb_SetDiffusion :: "real \<Rightarrow> HallReverb \<Rightarrow> HallReverb" where
  "HallReverb_SetDiffusion diffusion r = r\<lparr>hr_diffusion_coeff := diffusion * 0.7\<rparr>"

definition HallReverb_SetTankModSpeed :: "real \<Rightarrow> HallReverb \<Rightarrow> HallReverb" where
  "HallReverb_SetTankModSpeed speed r =
     (let speed1 = (if speed < 0.01 then 0.01 else speed);
          speed2 = (if speed1 > 10 then 10 else speed1)
      in r\<lparr>hr_lfo_phase_inc := 6.28318530 * speed2 / hr_sample_rate r\<rparr>)"

definition HallReverb_SetTankModDepth :: "real \<Rightarrow> HallReverb \<Rightarrow> HallReverb" where
  "HallReverb_SetTankModDepth depth r =
     (let depth1 = (if depth < 0 then 0 else depth);
          depth2 = (if depth1 > 20 then 20 else depth1)
      in r\<lparr>hr_mod_depth := depth2 * 0.2\<rparr>)"

text \<open>
  The ``damp, decay, write'' loop of \<open>ProcessSample\<close>: \<open>damped\<close> holds the eight values
  \<open>damping_[i].Process(mx[i])\<close>; the result holds the eight samples written back to the
  delay lines.
\<close>

definition HallReverb_feedback_write :: "HallReverb \<Rightarrow> real list \<Rightarrow> real \<Rightarrow> real list" where
  "HallReverb_feedback_write r damped in_scaled =
     map (\<lambda>d. d * hr_decay r + in_scaled) damped"

datatype HallSetter =
    SetDecay real | SetDiffusion real | SetTankModSpeed real | SetTankModDepth real

fun HallReverb_apply :: "HallSetter \<Rightarrow> HallReverb \<Rightarrow> HallReverb" where
  "HallReverb_apply (SetDecay d) r = HallReverb_SetDecay d r"
| "HallReverb_apply (SetDiffusion d) r = HallReverb_SetDiffusion d r"
| "HallReverb_apply (SetTankModSpeed s) r = HallReverb_SetTankModSpeed s r"
| "HallReverb_apply (SetTankModDepth d) r = HallReverb_SetTankModDepth d r"





section \<open>Delay effect (delay\_effect.cpp)\<close>

subsection \<open>Binary32 arithmetic\<close>

text \<open>
  A \<open>float\<close> of this section is a real number that is a binary32 value: an integer multiple
  of the spacing \<open>2 powi (e - 23)\<close> of its binade, where \<open>e\<close> is the exponent of the value,
  not below \<open>-126\<close> (the values below \<open>2 powi (-126)\<close> are the subnormal ones, spaced
  \<open>2 powi (-149)\<close> apart), with a significand of 24 bits. Every arithmetic operation of the
  source is the exact operation followed by the rounding \<open>f32\<close>: to the nearest binary32
  value, a tie going to the value with the even significand, each operation rounded by
  itself (no fused multiply-add). Results of magnitude \<open>2 ^ 128\<close> or more, which the
  hardware turns into an infinity, and not-a-number values are outside the model.
\<close>

definition f32_exponent :: "real \<Rightarrow> int" where
  "f32_exponent x = max (- 126) \<lfloor>log 2 \<bar>x\<bar>\<rfloor>"

definition f32_ulp :: "real \<Rightarrow> real" where
  "f32_ulp x = 2 powi (f32_exponent x - 23)"

definition round_half_even :: "real \<Rightarrow> int" where
  "round_half_even r =
     (let f = \<lfloor>r\<rfloor>; d = r - of_int f
      in if d < 1 / 2 then f else if 1 / 2 < d then f + 1 else if even f then f else f + 1)"

definition f32 :: "real \<Rightarrow> real" where
  "f32 x = (if x = 0 then 0 else of_int (round_half_even (x / f32_ulp x)) * f32_ulp x)"


subsection \<open>The effect\<close>



record 'dl DelayEffect =
  current_delay_L :: real
  current_delay_R :: real
  delay_target :: real
  feedback :: real
  del_L :: 'dl
  del_R :: 'dl


definition DelayEffect_SetFeedback :: "real \<Rightarrow> 'dl DelayEffect \<Rightarrow> 'dl DelayEffect" where
  "DelayEffect_SetFeedback fb d = d\<lparr>feedback := fb\<rparr>"

definition DelayEffect_Clear :: "'dl DelayEffect \<Rightarrow> 'dl DelayEffect" where
  "DelayEffect_Clear d = d\<lparr>current_delay_L := 0, current_delay_R := 0, delay_target := 0\<rparr>"





section \<open>Oscillator and tremolo (flick\_oscillator.cpp, tremolo\_effect.cpp)\<close>

definition PI_F :: real where "PI_F = 3.1415927410125732421875"
definition TWOPI_F :: real where "TWOPI_F = 2.0 * PI_F"

text \<open>
  A quotient of two floats whose divisor can be zero: the result is not a finite number
  then, which is \<open>None\<close>.
\<close>

definition fdiv :: "real \<Rightarrow> real \<Rightarrow> real option" where
  "fdiv a b = (if b = 0 then None else Some (a / b))"

text \<open>\<open>WAVE_OTHER\<close> stands for the waveforms that take the \<open>default\<close> branch.\<close>

datatype Waveform = WAVE_SIN | WAVE_SQUARE_ROUNDED | WAVE_OTHER

record FlickOscillator =
  waveform :: Waveform
  phase :: real
  phase_inc :: real
  amp :: real
  sr_recip :: real
  eoc :: bool
  eor :: bool

definition FlickOscillator_CalcPhaseInc :: "FlickOscillator \<Rightarrow> real \<Rightarrow> real" where
  "FlickOscillator_CalcPhaseInc osc f = f * sr_recip osc"

text \<open>
  Modelled from the spec: \<open>SetFreq\<close> and \<open>SetAmp\<close> are defined in the header
  flick\_oscillator.h, which is not available. The spec gives each tremolo an oscillator
  state behind \<open>SetSpeed(hz)\<close> and \<open>SetDepth\<close>; the setters are taken to store their
  argument in the members that \<open>Process\<close> reads, \<open>SetFreq\<close> as the phase increment that
  \<open>CalcPhaseInc\<close> computes.
\<close>

definition FlickOscillator_SetFreq :: "real \<Rightarrow> FlickOscillator \<Rightarrow> FlickOscillator" where
  "FlickOscillator_SetFreq f osc = osc\<lparr>phase_inc := FlickOscillator_CalcPhaseInc osc f\<rparr>"

definition FlickOscillator_SetAmp :: "real \<Rightarrow> FlickOscillator \<Rightarrow> FlickOscillator" where
  "FlickOscillator_SetAmp a osc = osc\<lparr>amp := a\<rparr>"

text \<open>
  \<open>Process()\<close>: the sample returned (\<open>None\<close> when the rounded square divides by a zero
  \<open>scale\<close>) and the oscillator afterwards.
\<close>

definition FlickOscillator_Process :: "FlickOscillator \<Rightarrow> real option \<times> FlickOscillator" where
  "FlickOscillator_Process osc =
     (let out =
        (case waveform osc of
           WAVE_SIN \<Rightarrow> Some (sin (phase osc * TWOPI_F))
         | WAVE_SQUARE_ROUNDED \<Rightarrow>
             (let delta = 0.04;
                  scale = amp osc * arctan (1.0 / delta)
              in map_option (\<lambda>q. q * arctan (sin (TWOPI_F * phase osc) / delta))
                   (fdiv (amp osc) scale))
         | WAVE_OTHER \<Rightarrow> Some 0);
          phase1 = phase osc + phase_inc osc;
          wrapped = (phase1 > 1.0);
          phase2 = (if wrapped then phase1 - 1.0 else phase1)
      in (map_option (\<lambda>v. v * amp osc) out,
          osc\<lparr>phase := phase2, eoc := wrapped,
              eor := (phase2 - phase_inc osc < 0.5 \<and> phase2 \<ge> 0.5)\<rparr>))"

text \<open>The members of \<open>SineTremolo\<close> and of \<open>SquareTremolo\<close> (base class and derived).\<close>

record Tremolo =
  speed :: real
  depth :: real
  last_lfo_value :: real
  tr_osc :: FlickOscillator
  dc_offset :: real

definition Tremolo_SetSpeed :: "real \<Rightarrow> Tremolo \<Rightarrow> Tremolo" where
  "Tremolo_SetSpeed hz t = t\<lparr>speed := hz\<rparr>"

definition Tremolo_SetDepth :: "real \<Rightarrow> Tremolo \<Rightarrow> Tremolo" where
  "Tremolo_SetDepth d t = t\<lparr>depth := d\<rparr>"

definition Tremolo_GetLastLFOValue :: "Tremolo \<Rightarrow> real" where
  "Tremolo_GetLastLFOValue t = last_lfo_value t"

text \<open>
  \<open>ProcessSample(in_L, in_R, &out_L, &out_R)\<close>: the output pair and the tremolo
  afterwards, or \<open>None\<close> when the oscillator sample is not a finite number (the outputs
  and \<open>last_lfo_value_\<close> are then not numbers either).
\<close>

definition SineTremolo_ProcessSample :: "real \<times> real \<Rightarrow> Tremolo \<Rightarrow> ((real \<times> real) \<times> Tremolo) option" where
  "SineTremolo_ProcessSample inp t =
     (let osc1 = FlickOscillator_SetFreq (speed t) (tr_osc t);
          scaled_depth = depth t * 0.5;
          osc2 = FlickOscillator_SetAmp scaled_depth osc1;
          dc = 1.0 - scaled_depth;
          (lfo, osc3) = FlickOscillator_Process osc2
      in case lfo of
           None \<Rightarrow> None
         | Some lfo_sample \<Rightarrow>
             (let v = dc + lfo_sample
              in Some ((fst inp * v, snd inp * v),
                       t\<lparr>tr_osc := osc3, dc_offset := dc, last_lfo_value := v\<rparr>)))"

definition SquareTremolo_ProcessSample :: "real \<times> real \<Rightarrow> Tremolo \<Rightarrow> ((real \<times> real) \<times> Tremolo) option" where
  "SquareTremolo_ProcessSample inp t =
     (let osc1 = FlickOscillator_SetFreq (speed t) (tr_osc t);
          scaled_depth = depth t * 0.5;
          osc2 = FlickOscillator_SetAmp scaled_depth osc1;
          dc = 1.0 - scaled_depth;
          (lfo, osc3) = FlickOscillator_Process osc2
      in case lfo of
           None \<Rightarrow> None
         | Some lfo_sample \<Rightarrow>
             (let v = dc + lfo_sample
              in Some ((fst inp * v, snd inp * v),
                       t\<lparr>tr_osc := osc3, dc_offset := dc, last_lfo_value := v\<rparr>)))"

section \<open>Orchestrator state (flick.cpp)\<close>

text \<open>
  An array read \<open>a[i]\<close> with a computed index is undefined outside the array; the model
  makes it a fault.
\<close>

datatype fault = IndexOutOfRange

definition array_read :: "'a list \<Rightarrow> int \<Rightarrow> fault + 'a" where
  "array_read xs i =
     (if 0 \<le> i \<and> i < int (length xs) then Inr (xs ! nat i) else Inl IndexOutOfRange)"

definition bind_fault :: "fault + 'a \<Rightarrow> ('a \<Rightarrow> fault + 'b) \<Rightarrow> fault + 'b" where
  "bind_fault m f = (case m of Inl e \<Rightarrow> Inl e | Inr x \<Rightarrow> f x)"

definition SETTINGS_VERSION :: int where "SETTINGS_VERSION = 8"
definition SAMPLE_RATE :: real where "SAMPLE_RATE = 48000"
definition MAX_DELAY :: real where "MAX_DELAY = 96000"
definition PLATE_DAMP_SCALE :: real where "PLATE_DAMP_SCALE = 10"
definition DELAY_TIME_MIN_SECONDS :: real where "DELAY_TIME_MIN_SECONDS = 0.05"
definition TAP_TEMPO_TIMEOUT_MS :: "32 word" where "TAP_TEMPO_TIMEOUT_MS = 4000"
definition TAP_FLASH_CALLBACKS :: int where "TAP_FLASH_CALLBACKS = 300"

definition PLATE_TANK_MOD_SPEED_VALUES :: "real list" where
  "PLATE_TANK_MOD_SPEED_VALUES = [0.5, 0.25, 0.1]"
definition PLATE_TANK_MOD_DEPTH_VALUES :: "real list" where
  "PLATE_TANK_MOD_DEPTH_VALUES = [0.5, 0.25, 0.1]"
definition PLATE_TANK_MOD_SHAPE_VALUES :: "real list" where
  "PLATE_TANK_MOD_SHAPE_VALUES = [0.5, 0.25, 0.1]"

datatype PedalMode =
    PEDAL_MODE_NORMAL | PEDAL_MODE_EDIT_REVERB | PEDAL_MODE_EDIT_DEVICE_SETTINGS
  | PEDAL_MODE_TAP_TEMPO

datatype ReverbType = REVERB_PLATE | REVERB_SPRING | REVERB_HALL

text \<open>
  The footswitch argument of the handlers is a \<open>Funbox::Switches\<close>; the enumerators
  other than the two footswitches are \<open>SWITCH_OTHER\<close>.
\<close>

datatype Switches = FOOTSWITCH_1 | FOOTSWITCH_2 | SWITCH_OTHER

text \<open>
  The enumerations that are stored in, and cast back from, the \<open>int\<close> fields of the
  settings record, or that index a table, are the integers of their enumerators.
\<close>

definition MS_MODE_MIMO :: int where "MS_MODE_MIMO = 0"
definition MS_MODE_MISO :: int where "MS_MODE_MISO = 1"
definition MS_MODE_SISO :: int where "MS_MODE_SISO = 2"

definition REVERB_KNOB_ALL_DRY :: int where "REVERB_KNOB_ALL_DRY = 0"
definition REVERB_KNOB_DRY_WET_MIX :: int where "REVERB_KNOB_DRY_WET_MIX = 1"
definition REVERB_KNOB_ALL_WET :: int where "REVERB_KNOB_ALL_WET = 2"

definition POLARITY_INVERT_RIGHT :: int where "POLARITY_INVERT_RIGHT = 0"
definition POLARITY_NORMAL :: int where "POLARITY_NORMAL = 1"
definition POLARITY_INVERT_LEFT :: int where "POLARITY_INVERT_LEFT = 2"

definition DELAY_TIMING_DOTTED_EIGHTH :: int where "DELAY_TIMING_DOTTED_EIGHTH = 0"
definition DELAY_TIMING_QUARTER :: int where "DELAY_TIMING_QUARTER = 1"
definition DELAY_TIMING_TRIPLET :: int where "DELAY_TIMING_TRIPLET = 2"

definition kMonoStereoMap :: "int list" where
  "kMonoStereoMap = [MS_MODE_SISO, MS_MODE_MISO, MS_MODE_MIMO]"
definition kReverbKnobMap :: "int list" where
  "kReverbKnobMap = [REVERB_KNOB_ALL_DRY, REVERB_KNOB_DRY_WET_MIX, REVERB_KNOB_ALL_WET]"
definition kPolarityMap :: "int list" where
  "kPolarityMap = [POLARITY_INVERT_RIGHT, POLARITY_NORMAL, POLARITY_INVERT_LEFT]"
definition kDelayTimingMap :: "int list" where
  "kDelayTimingMap = [DELAY_TIMING_DOTTED_EIGHTH, DELAY_TIMING_QUARTER, DELAY_TIMING_TRIPLET]"
definition kDelayTimingMultiplier :: "real list" where
  "kDelayTimingMultiplier = [0.75, 1.0, 0.6666]"

record Settings =
  version :: int
  decay :: real
  diffusion :: real
  input_cutoff_freq :: real
  tank_cutoff_freq :: real
  tank_mod_speed_pos :: int
  tank_mod_depth_pos :: int
  tank_mod_shape_pos :: int
  pre_delay :: real
  s_mono_stereo_mode :: int
  s_polarity_mode :: int
  reverb_knob_mode :: int
  bypass_reverb :: bool
  bypass_tremolo :: bool
  bypass_delay :: bool
  s_tapped_delay_samples :: real

record BypassState =
  bp_reverb :: bool
  bp_tremolo :: bool
  bp_delay :: bool

record ReverbOrchestrator =
  current_type :: ReverbType
  knob_mode :: int
  dry :: real
  wet :: real
  plate_pre_delay :: real
  plate_decay :: real
  plate_diffusion :: real
  plate_input_damp_high :: real
  plate_tank_damp_high :: real
  plate_mod_speed_pos :: int
  plate_mod_depth_pos :: int
  plate_mod_shape_pos :: int

text \<open>\<open>SwitchCapture\<close> (parameter\_capture.cpp).\<close>

record SwitchCapture =
  captured_switch_value :: int
  sc_is_frozen :: bool
  sc_frozen_value :: int

definition SwitchCapture_new :: SwitchCapture where
  "SwitchCapture_new = \<lparr>captured_switch_value = 0, sc_is_frozen = False, sc_frozen_value = 0\<rparr>"

text \<open>\<open>pos\<close> is what \<open>hw_.GetToggleswitchPosition(switch_idx_)\<close> returns in the call.\<close>

definition SwitchCapture_Capture :: "int \<Rightarrow> int \<Rightarrow> SwitchCapture \<Rightarrow> SwitchCapture" where
  "SwitchCapture_Capture pos fv c =
     c\<lparr>captured_switch_value := pos, sc_frozen_value := fv, sc_is_frozen := True\<rparr>"

definition SwitchCapture_Process :: "int \<Rightarrow> SwitchCapture \<Rightarrow> int \<times> SwitchCapture" where
  "SwitchCapture_Process current_value c =
     (if \<not> sc_is_frozen c then (current_value, c)
      else if current_value \<noteq> captured_switch_value c
           then (current_value, c\<lparr>sc_is_frozen := False\<rparr>)
      else (sc_frozen_value c, c))"

definition SwitchCapture_Reset :: "SwitchCapture \<Rightarrow> SwitchCapture" where
  "SwitchCapture_Reset c = c\<lparr>sc_is_frozen := False\<rparr>"

text \<open>The array \<open>uint32_t tap_timestamps[3]\<close>, newest first.\<close>

type_synonym tap_array = "32 word \<times> 32 word \<times> 32 word"

definition tap_read :: "tap_array \<Rightarrow> int \<Rightarrow> fault + 32 word" where
  "tap_read ts i = (case ts of (t0, t1, t2) \<Rightarrow> array_read [t0, t1, t2] i)"

record TapTempoState =
  tap_timestamps :: tap_array
  tap_count :: int
  tapped_delay_samples :: real
  tapped_tempo_ms :: real
  last_tap_time :: "32 word"
  tap_flash_counter :: int
  just_exited_tap_tempo :: bool
  knob_baseline :: real
  delay_knob_capture :: KnobCapture

text \<open>
  Modelled from the spec: \<open>daisy::PersistentStorage\<close> belongs to the libDaisy library,
  which is not part of this repository. The spec's persistence collaborator keeps the
  record in use, the compiled-in default record given at initialisation, and the durable
  copy (absent on a blank device); restoring the defaults reverts the record in use to
  the compiled-in defaults and persists them; saving persists the record in use.
\<close>

record PersistentStorage =
  ps_settings :: Settings
  ps_default_settings :: Settings
  ps_flash :: "Settings option"

definition PersistentStorage_Init :: "Settings \<Rightarrow> Settings option \<Rightarrow> PersistentStorage" where
  "PersistentStorage_Init defaults stored =
     (case stored of
        None \<Rightarrow> \<lparr>ps_settings = defaults, ps_default_settings = defaults, ps_flash = Some defaults\<rparr>
      | Some r \<Rightarrow> \<lparr>ps_settings = r, ps_default_settings = defaults, ps_flash = Some r\<rparr>)"

definition RestoreDefaults :: "PersistentStorage \<Rightarrow> PersistentStorage" where
  "RestoreDefaults p =
     p\<lparr>ps_settings := ps_default_settings p, ps_flash := Some (ps_default_settings p)\<rparr>"

definition PersistentStorage_Save :: "PersistentStorage \<Rightarrow> PersistentStorage" where
  "PersistentStorage_Save p = p\<lparr>ps_flash := Some (ps_settings p)\<rparr>"

text \<open>
  \<open>PlateReverb\<close> (plate\_reverb.cpp): the parameter block \<open>params_\<close> of the wrapper. The
  Dattorro engine behind it is a third-party component; its parameters are not modelled.
\<close>

record PlateParams =
  pp_decay :: real
  pp_diffusion :: real
  pp_pre_delay :: real
  pp_input_cutoff_freq :: real
  pp_tank_cutoff_freq :: real
  pp_tank_mod_speed_pos :: int
  pp_tank_mod_depth_pos :: int
  pp_tank_mod_shape_pos :: int

definition PlateReverb_new :: PlateParams where
  "PlateReverb_new =
     \<lparr>pp_decay = 0.8, pp_diffusion = 0.85, pp_pre_delay = 0, pp_input_cutoff_freq = 7.25,
      pp_tank_cutoff_freq = 7.25, pp_tank_mod_speed_pos = 2, pp_tank_mod_depth_pos = 2,
      pp_tank_mod_shape_pos = 1\<rparr>"

text \<open>The position chosen by \<open>SetTankModSpeed\<close>, \<open>SetTankModDepth\<close> and \<open>SetTankModShape\<close>.\<close>

definition tank_mod_pos :: "real \<Rightarrow> int" where
  "tank_mod_pos v = (if v \<le> 0.15 then 2 else if v \<le> 0.375 then 1 else 0)"

definition PlateReverb_SetDecay :: "real \<Rightarrow> PlateParams \<Rightarrow> PlateParams" where
  "PlateReverb_SetDecay v p = p\<lparr>pp_decay := v\<rparr>"
definition PlateReverb_SetDiffusion :: "real \<Rightarrow> PlateParams \<Rightarrow> PlateParams" where
  "PlateReverb_SetDiffusion v p = p\<lparr>pp_diffusion := v\<rparr>"
definition PlateReverb_SetPreDelay :: "real \<Rightarrow> PlateParams \<Rightarrow> PlateParams" where
  "PlateReverb_SetPreDelay v p = p\<lparr>pp_pre_delay := v\<rparr>"
definition PlateReverb_SetInputHighCut :: "real \<Rightarrow> PlateParams \<Rightarrow> PlateParams" where
  "PlateReverb_SetInputHighCut v p = p\<lparr>pp_input_cutoff_freq := v\<rparr>"
definition PlateReverb_SetTankHighCut :: "real \<Rightarrow> PlateParams \<Rightarrow> PlateParams" where
  "PlateReverb_SetTankHighCut v p = p\<lparr>pp_tank_cutoff_freq := v\<rparr>"
definition PlateReverb_SetTankModSpeed :: "real \<Rightarrow> PlateParams \<Rightarrow> PlateParams" where
  "PlateReverb_SetTankModSpeed v p = p\<lparr>pp_tank_mod_speed_pos := tank_mod_pos v\<rparr>"
definition PlateReverb_SetTankModDepth :: "real \<Rightarrow> PlateParams \<Rightarrow> PlateParams" where
  "PlateReverb_SetTankModDepth v p = p\<lparr>pp_tank_mod_depth_pos := tank_mod_pos v\<rparr>"
definition PlateReverb_SetTankModShape :: "real \<Rightarrow> PlateParams \<Rightarrow> PlateParams" where
  "PlateReverb_SetTankModShape v p = p\<lparr>pp_tank_mod_shape_pos := tank_mod_pos v\<rparr>"

text \<open>
  The three reverb instances and the pointer \<open>current_reverb\<close> (\<open>None\<close> is \<open>nullptr\<close>).
  The delay memory of an instance is abstracted to the list of samples it holds;
  \<open>Clear()\<close> resets every one of them to silence.
\<close>

record ReverbEngines =
  plate_reverb :: PlateParams
  plate_memory :: "real list"
  hall_memory :: "real list"
  spring_memory :: "real list"
  current_reverb :: "ReverbType option"

definition ReverbEffect_Clear :: "ReverbType \<Rightarrow> ReverbEngines \<Rightarrow> ReverbEngines" where
  "ReverbEffect_Clear t e =
     (case t of
        REVERB_PLATE \<Rightarrow> e\<lparr>plate_memory := map (\<lambda>_. 0) (plate_memory e)\<rparr>
      | REVERB_SPRING \<Rightarrow> e\<lparr>spring_memory := map (\<lambda>_. 0) (spring_memory e)\<rparr>
      | REVERB_HALL \<Rightarrow> e\<lparr>hall_memory := map (\<lambda>_. 0) (hall_memory e)\<rparr>)"

definition reverb_memory :: "ReverbType \<Rightarrow> ReverbEngines \<Rightarrow> real list" where
  "reverb_memory t e =
     (case t of REVERB_PLATE \<Rightarrow> plate_memory e | REVERB_SPRING \<Rightarrow> spring_memory e
              | REVERB_HALL \<Rightarrow> hall_memory e)"

record Captures =
  p_knob_2_capture :: KnobCapture
  p_knob_3_capture :: KnobCapture
  p_knob_4_capture :: KnobCapture
  p_knob_5_capture :: KnobCapture
  p_knob_6_capture :: KnobCapture
  p_sw1_capture :: SwitchCapture
  p_sw2_capture :: SwitchCapture
  p_sw3_capture :: SwitchCapture

text \<open>The global variables of the orchestrator.\<close>

record Flick =
  pedal_mode :: PedalMode
  mono_stereo_mode :: int
  polarity_mode :: int
  bypass :: BypassState
  reverb :: ReverbOrchestrator
  delay_time_target :: real
  reverb_dry_scale_factor :: real
  reverb_reverse_scale_factor :: real
  trigger_settings_save :: bool
  trigger_dfu_mode :: bool
  SavedSettings :: PersistentStorage
  engines :: ReverbEngines
  captures :: Captures
  tap_tempo :: TapTempoState

text \<open>
  What the hardware returns to the reads made during one handler or callback invocation:
  the millisecond clock, the \<open>Parameter::Process()\<close> value of each knob object, the raw
  value of knob 4, the logical positions of the three toggle switches (0, 1, 2, or 3 for
  \<open>TOGGLESWITCH_UNKNOWN\<close>), and whether each footswitch is held. Reads of the same
  control within one invocation return the same value.
\<close>

record HwReads =
  now :: "32 word"
  p_knob_2 :: real
  p_knob_3 :: real
  p_knob_4 :: real
  p_knob_5 :: real
  p_knob_6 :: real
  p_delay_time :: real
  hw_knob_4 :: real
  sw1 :: int
  sw2 :: int
  sw3 :: int
  fs1_pressed :: bool
  fs2_pressed :: bool

text \<open>The initial values of the globals, as their declarations give them.\<close>

definition ReverbOrchestrator_new :: ReverbOrchestrator where
  "ReverbOrchestrator_new =
     \<lparr>current_type = REVERB_PLATE, knob_mode = REVERB_KNOB_DRY_WET_MIX,
      dry = 1, wet = 0.5, plate_pre_delay = 0, plate_decay = 0.8, plate_diffusion = 0.85,
      plate_input_damp_high = 7.25 / PLATE_DAMP_SCALE,
      plate_tank_damp_high = 7.25 / PLATE_DAMP_SCALE,
      plate_mod_speed_pos = 2, plate_mod_depth_pos = 2, plate_mod_shape_pos = 1\<rparr>"

definition TapTempoState_new :: TapTempoState where
  "TapTempoState_new =
     \<lparr>tap_timestamps = (0, 0, 0), tap_count = 0, tapped_delay_samples = 0,
      tapped_tempo_ms = 0, last_tap_time = 0, tap_flash_counter = 0,
      just_exited_tap_tempo = False, knob_baseline = - 1,
      delay_knob_capture = KnobCapture_new 0.05\<rparr>"

text \<open>
  The storage object and the reverb instances are constructed elsewhere and are arguments
  here.
\<close>

definition Flick_globals :: "PersistentStorage \<Rightarrow> ReverbEngines \<Rightarrow> Flick" where
  "Flick_globals storage eng =
     \<lparr>pedal_mode = PEDAL_MODE_NORMAL,
      mono_stereo_mode = MS_MODE_MIMO,
      polarity_mode = POLARITY_NORMAL,
      bypass = \<lparr>bp_reverb = True, bp_tremolo = True, bp_delay = True\<rparr>,
      reverb = ReverbOrchestrator_new,
      delay_time_target = 0,
      reverb_dry_scale_factor = 1,
      reverb_reverse_scale_factor = 1,
      trigger_settings_save = False,
      trigger_dfu_mode = False,
      SavedSettings = storage,
      engines = eng,
      captures = \<lparr>p_knob_2_capture = KnobCapture_new 0.05,
                  p_knob_3_capture = KnobCapture_new 0.05,
                  p_knob_4_capture = KnobCapture_new 0.05,
                  p_knob_5_capture = KnobCapture_new 0.05,
                  p_knob_6_capture = KnobCapture_new 0.05,
                  p_sw1_capture = SwitchCapture_new,
                  p_sw2_capture = SwitchCapture_new,
                  p_sw3_capture = SwitchCapture_new\<rparr>,
      tap_tempo = TapTempoState_new\<rparr>"

text \<open>
  The record \<open>defaultSettings\<close> that \<open>main\<close> builds from the initial values of the
  reverb orchestrator and hands to \<open>SavedSettings.Init\<close>.
\<close>

definition defaultSettings :: Settings where
  "defaultSettings =
     \<lparr>version = SETTINGS_VERSION,
      decay = plate_decay ReverbOrchestrator_new,
      diffusion = plate_diffusion ReverbOrchestrator_new,
      input_cutoff_freq = plate_input_damp_high ReverbOrchestrator_new,
      tank_cutoff_freq = plate_tank_damp_high ReverbOrchestrator_new,
      tank_mod_speed_pos = plate_mod_speed_pos ReverbOrchestrator_new,
      tank_mod_depth_pos = plate_mod_depth_pos ReverbOrchestrator_new,
      tank_mod_shape_pos = plate_mod_shape_pos ReverbOrchestrator_new,
      pre_delay = plate_pre_delay ReverbOrchestrator_new,
      s_mono_stereo_mode = MS_MODE_MIMO,
      s_polarity_mode = POLARITY_NORMAL,
      reverb_knob_mode = REVERB_KNOB_DRY_WET_MIX,
      bypass_reverb = True,
      bypass_tremolo = True,
      bypass_delay = True,
      s_tapped_delay_samples = 0\<rparr>"

section \<open>Settings management (flick.cpp)\<close>

definition switchPosForValue :: "int list \<Rightarrow> int \<Rightarrow> int" where
  "switchPosForValue m v =
     (if m ! 0 = v then 0 else if m ! 1 = v then 1 else if m ! 2 = v then 2 else 1)"

definition updateReverbScales :: "int \<Rightarrow> Flick \<Rightarrow> Flick" where
  "updateReverbScales mode s =
     (if mode = MS_MODE_MIMO
        then s\<lparr>reverb_dry_scale_factor := 5, reverb_reverse_scale_factor := 0.2\<rparr>
      else if mode = MS_MODE_MISO \<or> mode = MS_MODE_SISO
        then s\<lparr>reverb_dry_scale_factor := 2.5, reverb_reverse_scale_factor := 0.4\<rparr>
      else s)"

definition updatePlateReverbParameters :: "Flick \<Rightarrow> fault + Flick" where
  "updatePlateReverbParameters s =
     bind_fault (array_read PLATE_TANK_MOD_SPEED_VALUES (plate_mod_speed_pos (reverb s))) (\<lambda>speed.
     bind_fault (array_read PLATE_TANK_MOD_DEPTH_VALUES (plate_mod_depth_pos (reverb s))) (\<lambda>depth.
     bind_fault (array_read PLATE_TANK_MOD_SHAPE_VALUES (plate_mod_shape_pos (reverb s))) (\<lambda>shape.
       Inr (s\<lparr>engines := (engines s)\<lparr>plate_reverb :=
              PlateReverb_SetPreDelay (plate_pre_delay (reverb s))
               (PlateReverb_SetTankModShape shape
                (PlateReverb_SetTankModDepth depth
                 (PlateReverb_SetTankModSpeed speed
                  (PlateReverb_SetTankHighCut (plate_tank_damp_high (reverb s))
                   (PlateReverb_SetInputHighCut (plate_input_damp_high (reverb s))
                    (PlateReverb_SetDiffusion (plate_diffusion (reverb s))
                     (PlateReverb_SetDecay (plate_decay (reverb s))
                       (plate_reverb (engines s)))))))))\<rparr>\<rparr>))))"

text \<open>
  The assignments of \<open>loadSettings\<close> after its version check, up to the call of
  \<open>updatePlateReverbParameters\<close>.
\<close>

definition loadSettings_assign :: "Flick \<Rightarrow> Flick" where
  "loadSettings_assign s =
     (let l = ps_settings (SavedSettings s);
          s1 = s\<lparr>reverb := (reverb s)
                  \<lparr>plate_decay := decay l,
                   plate_diffusion := diffusion l,
                   plate_input_damp_high := input_cutoff_freq l,
                   plate_tank_damp_high := tank_cutoff_freq l,
                   plate_mod_speed_pos := tank_mod_speed_pos l,
                   plate_mod_depth_pos := tank_mod_depth_pos l,
                   plate_mod_shape_pos := tank_mod_shape_pos l,
                   plate_pre_delay := pre_delay l,
                   knob_mode := reverb_knob_mode l\<rparr>,
                mono_stereo_mode := s_mono_stereo_mode l,
                polarity_mode := s_polarity_mode l\<rparr>;
          s2 = updateReverbScales (mono_stereo_mode s1) s1
      in s2\<lparr>bypass := \<lparr>bp_reverb = bypass_reverb l, bp_tremolo = bypass_tremolo l,
                        bp_delay = bypass_delay l\<rparr>,
            tap_tempo := (tap_tempo s2)\<lparr>tapped_delay_samples := s_tapped_delay_samples l\<rparr>\<rparr>)"

text \<open>
  \<open>loadSettings\<close> calls itself after restoring the defaults; \<open>None\<close> is the run that
  never returns.
\<close>

partial_function (option) loadSettings :: "Flick \<Rightarrow> (fault + Flick) option" where
  "loadSettings s =
     (if version (ps_settings (SavedSettings s)) \<noteq> SETTINGS_VERSION
        then loadSettings (s\<lparr>SavedSettings := RestoreDefaults (SavedSettings s)\<rparr>)
      else Some (updatePlateReverbParameters (loadSettings_assign s)))"

definition saveSettings :: "Flick \<Rightarrow> Flick" where
  "saveSettings s =
     s\<lparr>SavedSettings := (SavedSettings s)\<lparr>ps_settings := (ps_settings (SavedSettings s))
          \<lparr>version := SETTINGS_VERSION,
           decay := plate_decay (reverb s),
           diffusion := plate_diffusion (reverb s),
           input_cutoff_freq := plate_input_damp_high (reverb s),
           tank_cutoff_freq := plate_tank_damp_high (reverb s),
           tank_mod_speed_pos := plate_mod_speed_pos (reverb s),
           tank_mod_depth_pos := plate_mod_depth_pos (reverb s),
           tank_mod_shape_pos := plate_mod_shape_pos (reverb s),
           pre_delay := plate_pre_delay (reverb s)\<rparr>\<rparr>,
       trigger_settings_save := True\<rparr>"

definition saveDeviceSettings :: "Flick \<Rightarrow> Flick" where
  "saveDeviceSettings s =
     s\<lparr>SavedSettings := (SavedSettings s)\<lparr>ps_settings := (ps_settings (SavedSettings s))
          \<lparr>s_mono_stereo_mode := mono_stereo_mode s,
           s_polarity_mode := polarity_mode s,
           reverb_knob_mode := knob_mode (reverb s)\<rparr>\<rparr>,
       trigger_settings_save := True\<rparr>"

definition saveBypassStates :: "Flick \<Rightarrow> Flick" where
  "saveBypassStates s =
     s\<lparr>SavedSettings := (SavedSettings s)\<lparr>ps_settings := (ps_settings (SavedSettings s))
          \<lparr>bypass_reverb := bp_reverb (bypass s),
           bypass_tremolo := bp_tremolo (bypass s),
           bypass_delay := bp_delay (bypass s),
           s_tapped_delay_samples := tapped_delay_samples (tap_tempo s)\<rparr>\<rparr>,
       trigger_settings_save := True\<rparr>"

definition restoreReverbSettings :: "Flick \<Rightarrow> fault + Flick" where
  "restoreReverbSettings s =
     (let l = ps_settings (SavedSettings s)
      in updatePlateReverbParameters
           (s\<lparr>reverb := (reverb s)
                \<lparr>plate_decay := decay l,
                 plate_diffusion := diffusion l,
                 plate_input_damp_high := input_cutoff_freq l,
                 plate_tank_damp_high := tank_cutoff_freq l,
                 plate_mod_speed_pos := tank_mod_speed_pos l,
                 plate_mod_depth_pos := tank_mod_depth_pos l,
                 plate_mod_shape_pos := tank_mod_shape_pos l,
                 plate_pre_delay := pre_delay l\<rparr>\<rparr>))"

definition restoreDeviceSettings :: "Flick \<Rightarrow> Flick" where
  "restoreDeviceSettings s =
     (let l = ps_settings (SavedSettings s);
          s1 = s\<lparr>mono_stereo_mode := s_mono_stereo_mode l,
                polarity_mode := s_polarity_mode l,
                reverb := (reverb s)\<lparr>knob_mode := reverb_knob_mode l\<rparr>\<rparr>
      in updateReverbScales (mono_stereo_mode s1) s1)"

text \<open>
  The start of \<open>main\<close> as far as the settings are concerned: the globals at their initial
  values, \<open>current_reverb = &plate_reverb\<close>, \<open>SavedSettings.Init(defaultSettings)\<close> on a
  device whose durable copy is \<open>stored\<close>, then \<open>loadSettings()\<close>.
\<close>

definition main_settings :: "Settings option \<Rightarrow> ReverbEngines \<Rightarrow> (fault + Flick) option" where
  "main_settings stored eng =
     loadSettings (Flick_globals (PersistentStorage_Init defaultSettings stored)
                     (eng\<lparr>current_reverb := Some REVERB_PLATE\<rparr>))"

section \<open>Tap tempo (flick.cpp)\<close>

definition enterTapTempo :: "HwReads \<Rightarrow> Flick \<Rightarrow> fault + Flick" where
  "enterTapTempo hw s =
     (let cap = KnobCapture_Capture (p_knob_4 hw) (p_knob_4 hw) (delay_knob_capture (tap_tempo s))
      in bind_fault (array_read kDelayTimingMap (sw3 hw)) (\<lambda>current_timing.
         bind_fault (array_read kDelayTimingMultiplier current_timing) (\<lambda>mult.
           (let samples = delay_time_target s / mult;
                s1 = s\<lparr>tap_tempo := (tap_tempo s)
                        \<lparr>delay_knob_capture := cap,
                         tapped_delay_samples := samples,
                         tap_count := 0,
                         tap_timestamps := (0, 0, 0),
                         tap_flash_counter := 0,
                         tapped_tempo_ms := samples / SAMPLE_RATE * 1000,
                         last_tap_time := now hw\<rparr>\<rparr>;
                s2 = (if bp_delay (bypass s1)
                        then saveBypassStates (s1\<lparr>bypass := (bypass s1)\<lparr>bp_delay := False\<rparr>\<rparr>)
                      else s1)
            in Inr (s2\<lparr>pedal_mode := PEDAL_MODE_TAP_TEMPO\<rparr>)))))"

definition exitTapTempo :: "HwReads \<Rightarrow> Flick \<Rightarrow> Flick" where
  "exitTapTempo hw s =
     (let knob_was_moved = \<not> KnobCapture_IsFrozen (delay_knob_capture (tap_tempo s));
          t1 = (tap_tempo s)\<lparr>delay_knob_capture := KnobCapture_Reset (delay_knob_capture (tap_tempo s))\<rparr>;
          t2 = (if knob_was_moved \<or> tapped_delay_samples t1 = 0
                  then t1\<lparr>tapped_delay_samples := 0, knob_baseline := - 1\<rparr>
                else t1\<lparr>knob_baseline := hw_knob_4 hw\<rparr>)
      in (saveBypassStates (s\<lparr>tap_tempo := t2\<rparr>))\<lparr>pedal_mode := PEDAL_MODE_NORMAL\<rparr>)"

text \<open>
  The loop of \<open>registerTap\<close> that adds up \<open>tap_timestamps[i] - tap_timestamps[i + 1]\<close> for
  \<open>i\<close> from 0 below \<open>intervals\<close>, in 32-bit unsigned arithmetic.
\<close>

fun tap_total :: "tap_array \<Rightarrow> nat \<Rightarrow> fault + 32 word" where
  "tap_total ts 0 = Inr 0"
| "tap_total ts (Suc i) =
     bind_fault (tap_total ts i) (\<lambda>total.
     bind_fault (tap_read ts (int i)) (\<lambda>a.
     bind_fault (tap_read ts (int i + 1)) (\<lambda>b.
       Inr (total + (a - b)))))"

definition registerTap :: "HwReads \<Rightarrow> Flick \<Rightarrow> fault + Flick" where
  "registerTap hw s =
     (let t = tap_tempo s;
          ts = (case tap_timestamps t of (t0, t1, t2) \<Rightarrow> (now hw, t0, t1));
          count = (if tap_count t < 3 then tap_count t + 1 else tap_count t);
          t1 = t\<lparr>tap_timestamps := ts, tap_count := count\<rparr>;
          finish = (\<lambda>s'. s'\<lparr>tap_tempo := (tap_tempo s')
                      \<lparr>last_tap_time := now hw, tap_flash_counter := TAP_FLASH_CALLBACKS\<rparr>\<rparr>)
      in if count \<ge> 2
           then (let intervals = count - 1
                 in bind_fault (tap_total ts (nat intervals)) (\<lambda>total.
                      (let avg_ms = real (unat total) / real_of_int intervals;
                           samples = avg_ms * SAMPLE_RATE / 1000;
                           min_delay = SAMPLE_RATE * DELAY_TIME_MIN_SECONDS;
                           samples1 = (if samples < min_delay then min_delay else samples);
                           samples2 = (if samples1 > MAX_DELAY then MAX_DELAY else samples1)
                       in Inr (finish (saveBypassStates
                             (s\<lparr>tap_tempo := t1\<lparr>tapped_delay_samples := samples2,
                                                 tapped_tempo_ms := avg_ms\<rparr>\<rparr>))))))
         else Inr (finish (s\<lparr>tap_tempo := t1\<rparr>)))"

section \<open>Footswitch handlers (flick.cpp)\<close>

definition reset_reverb_captures :: "Captures \<Rightarrow> Captures" where
  "reset_reverb_captures c =
     c\<lparr>p_knob_2_capture := KnobCapture_Reset (p_knob_2_capture c),
       p_knob_3_capture := KnobCapture_Reset (p_knob_3_capture c),
       p_knob_4_capture := KnobCapture_Reset (p_knob_4_capture c),
       p_knob_5_capture := KnobCapture_Reset (p_knob_5_capture c),
       p_knob_6_capture := KnobCapture_Reset (p_knob_6_capture c),
       p_sw1_capture := SwitchCapture_Reset (p_sw1_capture c),
       p_sw2_capture := SwitchCapture_Reset (p_sw2_capture c),
       p_sw3_capture := SwitchCapture_Reset (p_sw3_capture c)\<rparr>"

definition reset_switch_captures :: "Captures \<Rightarrow> Captures" where
  "reset_switch_captures c =
     c\<lparr>p_sw1_capture := SwitchCapture_Reset (p_sw1_capture c),
       p_sw2_capture := SwitchCapture_Reset (p_sw2_capture c),
       p_sw3_capture := SwitchCapture_Reset (p_sw3_capture c)\<rparr>"

definition handleNormalPress :: "Switches \<Rightarrow> HwReads \<Rightarrow> Flick \<Rightarrow> fault + Flick" where
  "handleNormalPress footswitch hw s =
     (if pedal_mode s = PEDAL_MODE_TAP_TEMPO then
        (if footswitch = FOOTSWITCH_1
           then (let s1 = exitTapTempo hw s
                 in Inr (s1\<lparr>tap_tempo := (tap_tempo s1)\<lparr>just_exited_tap_tempo := True\<rparr>\<rparr>))
         else registerTap hw s)
      else
        (let s0 = s\<lparr>tap_tempo := (tap_tempo s)\<lparr>just_exited_tap_tempo := False\<rparr>\<rparr>
         in if pedal_mode s0 = PEDAL_MODE_EDIT_REVERB then
              bind_fault (if footswitch = FOOTSWITCH_2 then Inr (saveSettings s0)
                          else restoreReverbSettings s0) (\<lambda>s1.
                Inr (s1\<lparr>captures := reset_reverb_captures (captures s1),
                        pedal_mode := PEDAL_MODE_NORMAL\<rparr>))
            else if pedal_mode s0 = PEDAL_MODE_EDIT_DEVICE_SETTINGS then
              (let s1 = (if footswitch = FOOTSWITCH_2 then saveDeviceSettings s0
                         else restoreDeviceSettings s0)
               in Inr (s1\<lparr>captures := reset_switch_captures (captures s1),
                          pedal_mode := PEDAL_MODE_NORMAL\<rparr>))
            else
              (let s1 =
                 (if footswitch = FOOTSWITCH_1 then
                    (let s' = s0\<lparr>bypass := (bypass s0)\<lparr>bp_reverb := \<not> bp_reverb (bypass s0)\<rparr>\<rparr>
                     in if bp_reverb (bypass s') then
                          (case current_reverb (engines s') of
                             None \<Rightarrow> s'
                           | Some r \<Rightarrow> s'\<lparr>engines := ReverbEffect_Clear r (engines s')\<rparr>)
                        else s')
                  else s0\<lparr>bypass := (bypass s0)\<lparr>bp_tremolo := \<not> bp_tremolo (bypass s0)\<rparr>\<rparr>)
               in Inr (saveBypassStates s1))))"

definition handleDoublePress :: "Switches \<Rightarrow> HwReads \<Rightarrow> Flick \<Rightarrow> fault + Flick" where
  "handleDoublePress footswitch hw s =
     (if just_exited_tap_tempo (tap_tempo s)
        then Inr (s\<lparr>tap_tempo := (tap_tempo s)\<lparr>just_exited_tap_tempo := False\<rparr>\<rparr>)
      else if pedal_mode s = PEDAL_MODE_TAP_TEMPO
        then (if footswitch = FOOTSWITCH_2 then registerTap hw s else Inr s)
      else if pedal_mode s = PEDAL_MODE_EDIT_REVERB \<or> pedal_mode s = PEDAL_MODE_EDIT_DEVICE_SETTINGS
        then Inr s
      else bind_fault (handleNormalPress footswitch hw s) (\<lambda>s1.
             if footswitch = FOOTSWITCH_1 then enterTapTempo hw s1
             else if footswitch = FOOTSWITCH_2
               then Inr (saveBypassStates
                           (s1\<lparr>bypass := (bypass s1)\<lparr>bp_delay := \<not> bp_delay (bypass s1)\<rparr>\<rparr>))
             else Inr s1))"

definition handleLongPress :: "Switches \<Rightarrow> HwReads \<Rightarrow> Flick \<Rightarrow> fault + Flick" where
  "handleLongPress footswitch hw s =
     (if just_exited_tap_tempo (tap_tempo s)
        then Inr (s\<lparr>tap_tempo := (tap_tempo s)\<lparr>just_exited_tap_tempo := False\<rparr>\<rparr>)
      else if pedal_mode s = PEDAL_MODE_EDIT_REVERB \<or> pedal_mode s = PEDAL_MODE_EDIT_DEVICE_SETTINGS
              \<or> pedal_mode s = PEDAL_MODE_TAP_TEMPO
        then Inr s
      else bind_fault (handleNormalPress footswitch hw s) (\<lambda>s1.
             (let both_pressed = (fs1_pressed hw \<and> fs2_pressed hw)
              in if both_pressed then Inr (s1\<lparr>trigger_dfu_mode := True\<rparr>)
                 else if footswitch = FOOTSWITCH_1 then
                   (let c = captures s1; r = reverb s1;
                        c' = c\<lparr>p_knob_2_capture := KnobCapture_Capture (p_knob_2 hw) (plate_pre_delay r) (p_knob_2_capture c),
                               p_knob_3_capture := KnobCapture_Capture (p_knob_3 hw) (plate_decay r) (p_knob_3_capture c),
                               p_knob_4_capture := KnobCapture_Capture (p_knob_4 hw) (plate_diffusion r) (p_knob_4_capture c),
                               p_knob_5_capture := KnobCapture_Capture (p_knob_5 hw) (plate_input_damp_high r) (p_knob_5_capture c),
                               p_knob_6_capture := KnobCapture_Capture (p_knob_6 hw) (plate_tank_damp_high r) (p_knob_6_capture c),
                               p_sw1_capture := SwitchCapture_Capture (sw1 hw) (plate_mod_speed_pos r) (p_sw1_capture c),
                               p_sw2_capture := SwitchCapture_Capture (sw2 hw) (plate_mod_depth_pos r) (p_sw2_capture c),
                               p_sw3_capture := SwitchCapture_Capture (sw3 hw) (plate_mod_shape_pos r) (p_sw3_capture c)\<rparr>
                    in Inr (s1\<lparr>captures := c',
                               bypass := (bypass s1)\<lparr>bp_reverb := False\<rparr>,
                               pedal_mode := PEDAL_MODE_EDIT_REVERB\<rparr>))
                 else if footswitch = FOOTSWITCH_2 then
                   (let c = captures s1;
                        c' = c\<lparr>p_sw1_capture := SwitchCapture_Capture (sw1 hw)
                                   (switchPosForValue kReverbKnobMap (knob_mode (reverb s1))) (p_sw1_capture c),
                               p_sw2_capture := SwitchCapture_Capture (sw2 hw)
                                   (switchPosForValue kPolarityMap (polarity_mode s1)) (p_sw2_capture c),
                               p_sw3_capture := SwitchCapture_Capture (sw3 hw)
                                   (switchPosForValue kMonoStereoMap (mono_stereo_mode s1)) (p_sw3_capture c)\<rparr>
                    in Inr (s1\<lparr>captures := c', pedal_mode := PEDAL_MODE_EDIT_DEVICE_SETTINGS\<rparr>))
                 else Inr s1)))"


section \<open>Audio callback (flick.cpp)\<close>

text \<open>
  The delay section of the per-block control code, which runs in Normal and TapTempo mode:
  the choice of the base delay time, the tap-tempo auto-exit, and the timing subdivision
  that gives \<open>delay_time_target\<close>. The calls that hand the target, the feedback and the mix
  to the delay effect follow it and are not part of this function.
\<close>

definition AudioCallback_delay_control :: "HwReads \<Rightarrow> Flick \<Rightarrow> fault + Flick" where
  "AudioCallback_delay_control hw s =
     bind_fault (array_read kDelayTimingMap (sw3 hw)) (\<lambda>delay_timing.
       (let (base_delay_time, s1) =
          (if pedal_mode s = PEDAL_MODE_TAP_TEMPO then
             (let cap = snd (KnobCapture_Process (p_knob_4 hw) (delay_knob_capture (tap_tempo s)));
                  sa = s\<lparr>tap_tempo := (tap_tempo s)\<lparr>delay_knob_capture := cap\<rparr>\<rparr>;
                  base = (if \<not> KnobCapture_IsFrozen cap then p_delay_time hw
                          else if tapped_delay_samples (tap_tempo sa) > 0
                            then tapped_delay_samples (tap_tempo sa)
                          else p_delay_time hw)
              in (base, if now hw - last_tap_time (tap_tempo sa) > TAP_TEMPO_TIMEOUT_MS
                          then exitTapTempo hw sa else sa))
           else
             (let sa =
                (if tapped_delay_samples (tap_tempo s) > 0 then
                   (let current_knob = hw_knob_4 hw;
                        t1 = (if knob_baseline (tap_tempo s) < 0
                                then (tap_tempo s)\<lparr>knob_baseline := current_knob\<rparr>
                              else tap_tempo s)
                    in if \<bar>current_knob - knob_baseline t1\<bar> > 0.05
                         then saveBypassStates
                                (s\<lparr>tap_tempo := t1\<lparr>tapped_delay_samples := 0, knob_baseline := - 1\<rparr>\<rparr>)
                       else s\<lparr>tap_tempo := t1\<rparr>)
                 else s)
              in (if tapped_delay_samples (tap_tempo sa) > 0
                    then tapped_delay_samples (tap_tempo sa) else p_delay_time hw, sa)))
        in bind_fault (array_read kDelayTimingMultiplier delay_timing) (\<lambda>mult.
             Inr (s1\<lparr>delay_time_target := base_delay_time * mult\<rparr>))))"

text \<open>
  The per-sample loop. Its first lines choose the two internal channels from the input
  frame, its last lines write the output frame; the stages between them (notch filters,
  delay, tremolo, reverb and the dry/wet mixes), with all the state they keep, are the
  parameter \<open>chain\<close>.
\<close>

definition input_routing :: "int \<Rightarrow> real \<times> real \<Rightarrow> real \<times> real" where
  "input_routing mode frame =
     (let dry_L = fst frame; dry_R = snd frame; s_L = dry_L
      in if mode = MS_MODE_MIMO \<or> mode = MS_MODE_MISO then (s_L, dry_L) else (s_L, dry_R))"

definition output_routing :: "int \<Rightarrow> int \<Rightarrow> real \<times> real \<Rightarrow> real \<times> real" where
  "output_routing mode polarity s =
     (let polarity_L = (if polarity = POLARITY_INVERT_LEFT then - 1 else 1);
          polarity_R = (if polarity = POLARITY_INVERT_RIGHT then - 1 else 1);
          s_L = fst s; s_R = snd s
      in if mode = MS_MODE_MIMO then (((s_L * 0.5) + (s_R * 0.5)) * polarity_L, 0)
         else (s_L * polarity_L, s_R * polarity_R))"

definition AudioCallback_sample ::
  "('fx \<Rightarrow> real \<times> real \<Rightarrow> (real \<times> real) \<times> 'fx) \<Rightarrow> int \<Rightarrow> int \<Rightarrow> 'fx \<Rightarrow> real \<times> real
     \<Rightarrow> (real \<times> real) \<times> 'fx" where
  "AudioCallback_sample chain mode polarity fx frame =
     (let (s, fx') = chain fx (input_routing mode frame)
      in (output_routing mode polarity s, fx'))"

fun AudioCallback_loop ::
  "('fx \<Rightarrow> real \<times> real \<Rightarrow> (real \<times> real) \<times> 'fx) \<Rightarrow> int \<Rightarrow> int \<Rightarrow> 'fx \<Rightarrow> (real \<times> real) list
     \<Rightarrow> (real \<times> real) list \<times> 'fx" where
  "AudioCallback_loop chain mode polarity fx [] = ([], fx)"
| "AudioCallback_loop chain mode polarity fx (frame # frames) =
     (let (out, fx') = AudioCallback_sample chain mode polarity fx frame;
          (outs, fx'') = AudioCallback_loop chain mode polarity fx' frames
      in (out # outs, fx''))"

text \<open>
  ``Every field is loaded as stored'': each orchestrator variable that \<open>loadSettings\<close>
  assigns holds the value of its field of the record \<open>l\<close>.
\<close>

definition settings_loaded :: "Settings \<Rightarrow> Flick \<Rightarrow> bool" where
  "settings_loaded l s =
     (plate_decay (reverb s) = decay l \<and>
      plate_diffusion (reverb s) = diffusion l \<and>
      plate_input_damp_high (reverb s) = input_cutoff_freq l \<and>
      plate_tank_damp_high (reverb s) = tank_cutoff_freq l \<and>
      plate_mod_speed_pos (reverb s) = tank_mod_speed_pos l \<and>
      plate_mod_depth_pos (reverb s) = tank_mod_depth_pos l \<and>
      plate_mod_shape_pos (reverb s) = tank_mod_shape_pos l \<and>
      plate_pre_delay (reverb s) = pre_delay l \<and>
      mono_stereo_mode s = s_mono_stereo_mode l \<and>
      polarity_mode s = s_polarity_mode l \<and>
      knob_mode (reverb s) = reverb_knob_mode l \<and>
      bp_reverb (bypass s) = bypass_reverb l \<and>
      bp_tremolo (bypass s) = bypass_tremolo l \<and>
      bp_delay (bypass s) = bypass_delay l \<and>
      tapped_delay_samples (tap_tempo s) = s_tapped_delay_samples l)"

text \<open>The three modulation switch positions of a record index their tables in range.\<close>

definition mod_positions_valid :: "Settings \<Rightarrow> bool" where
  "mod_positions_valid l =
     (0 \<le> tank_mod_speed_pos l \<and> tank_mod_speed_pos l \<le> 2 \<and>
      0 \<le> tank_mod_depth_pos l \<and> tank_mod_depth_pos l \<le> 2 \<and>
      0 \<le> tank_mod_shape_pos l \<and> tank_mod_shape_pos l \<le> 2)"

section \<open>Event sequences\<close>

text \<open>
  What happens to the orchestrator over time: the hardware layer delivers a gesture of a
  footswitch to the registered callback, or an audio block runs the delay section of its
  control code, which the callback does in Normal and TapTempo mode only and skips in the
  two edit modes. Each event comes with the hardware readings of its invocation.
\<close>

datatype Event = NormalPress Switches | DoublePress Switches | LongPress Switches | Block

fun deliver :: "Event \<Rightarrow> HwReads \<Rightarrow> Flick \<Rightarrow> fault + Flick" where
  "deliver (NormalPress fs) hw s = handleNormalPress fs hw s"
| "deliver (DoublePress fs) hw s = handleDoublePress fs hw s"
| "deliver (LongPress fs) hw s = handleLongPress fs hw s"
| "deliver Block hw s =
     (if pedal_mode s = PEDAL_MODE_NORMAL \<or> pedal_mode s = PEDAL_MODE_TAP_TEMPO
        then AudioCallback_delay_control hw s
      else Inr s)"

fun run_events :: "(Event \<times> HwReads) list \<Rightarrow> Flick \<Rightarrow> fault + Flick" where
  "run_events [] s = Inr s"
| "run_events ((e, hw) # es) s = bind_fault (deliver e hw s) (run_events es)"

text \<open>The pedal mode, the reverb bypass flag and the tap-tempo exit guard of a state.\<close>

definition observe :: "Flick \<Rightarrow> PedalMode \<times> bool \<times> bool" where
  "observe s = (pedal_mode s, bp_reverb (bypass s), just_exited_tap_tempo (tap_tempo s))"

definition observed :: "fault + Flick \<Rightarrow> fault + PedalMode \<times> bool \<times> bool" where
  "observed r = map_sum id observe r"

text \<open>
  For the audio loop: stages that pass both internal channels through and keep no state.
\<close>

definition passthrough :: "unit \<Rightarrow> real \<times> real \<Rightarrow> (real \<times> real) \<times> unit" where
  "passthrough fx s = (s, fx)"

section \<open>Example inputs\<close>

text \<open>
  Reverb instances holding \<open>n\<close> samples of silence each, and a hardware reading with the
  clock at \<open>t\<close>, every knob at mid travel, every toggle switch in the middle position and
  no footswitch held.
\<close>

definition ReverbEngines_silent :: "nat \<Rightarrow> ReverbEngines" where
  "ReverbEngines_silent n =
     \<lparr>plate_reverb = PlateReverb_new, plate_memory = replicate n 0,
      hall_memory = replicate n 0, spring_memory = replicate n 0, current_reverb = None\<rparr>"

definition HwReads_idle :: "32 word \<Rightarrow> HwReads" where
  "HwReads_idle t =
     \<lparr>now = t, p_knob_2 = 0.5, p_knob_3 = 0.5, p_knob_4 = 0.5, p_knob_5 = 0.5, p_knob_6 = 0.5,
      p_delay_time = 15000, hw_knob_4 = 0.5, sw1 = 1, sw2 = 1, sw3 = 1,
      fs1_pressed = False, fs2_pressed = False\<rparr>"

text \<open>
  The globals at their initial values, with the storage initialised on a blank device and
  the plate reverb selected, as \<open>main\<close> has them before it loads the settings.
\<close>

definition Flick_started :: Flick where
  "Flick_started =
     Flick_globals (PersistentStorage_Init defaultSettings None)
       ((ReverbEngines_silent 4)\<lparr>current_reverb := Some REVERB_PLATE\<rparr>)"

text \<open>
  A tremolo with the speed and depth that the class declares (4 Hz, 0.5), whose oscillator
  has the given waveform and stands at phase 0 for a 48000 Hz sample rate.
\<close>

definition Tremolo_init :: "Waveform \<Rightarrow> Tremolo" where
  "Tremolo_init w =
     \<lparr>speed = 4.0, depth = 0.5, last_lfo_value = 0,
      tr_osc = \<lparr>waveform = w, phase = 0, phase_inc = 0, amp = 0.5, sr_recip = 1 / 48000,
                eoc = True, eor = True\<rparr>,
      dc_offset = 1.0\<rparr>"




section \<open>Soft takeover: results\<close>

lemma KnobCapture_run_passthrough:
  "\<not> is_frozen c \<Longrightarrow> KnobCapture_run c rs = (rs, c)"
  by (induction rs) (simp_all add: KnobCapture_Process_def)

lemma KnobCapture_run_frozen:
  "is_frozen c \<Longrightarrow>
   KnobCapture_run c rs =
     (map (\<lambda>_. frozen_value c)
          (takeWhile (\<lambda>r. \<bar>r - captured_knob_value c\<bar> < threshold c) rs)
        @ dropWhile (\<lambda>r. \<bar>r - captured_knob_value c\<bar> < threshold c) rs,
      c\<lparr>is_frozen := (\<forall>r \<in> set rs. \<bar>r - captured_knob_value c\<bar> < threshold c)\<rparr>)"
proof (induction rs)
  case Nil
  then show ?case by simp
next
  case (Cons r rs)
  show ?case
  proof (cases "\<bar>r - captured_knob_value c\<bar> < threshold c")
    case True
    with Cons show ?thesis by (simp add: KnobCapture_Process_def)
  next
    case False
    have "KnobCapture_run (c\<lparr>is_frozen := False\<rparr>) rs = (rs, c\<lparr>is_frozen := False\<rparr>)"
      by (rule KnobCapture_run_passthrough) simp
    with False Cons.prems show ?thesis by (simp add: KnobCapture_Process_def)
  qed
qed

text \<open>
  C1. After \<open>Capture(frozenValue)\<close> with baseline reading \<open>k0\<close>, and no \<open>Reset()\<close>, the
  successive \<open>Process()\<close> calls return exactly \<open>frozenValue\<close> for the longest run of
  live readings whose absolute deviation from the baseline is strictly below the
  threshold, and return the live reading at the first call where the deviation reaches or
  exceeds the threshold and at every call after it (equality with the threshold counts as
  exceeded); from that call on the capture is disarmed, whatever the later readings are.
\<close>

theorem KnobCapture_soft_takeover:
  "KnobCapture_run (KnobCapture_Capture k0 frozenValue c) rs =
     (map (\<lambda>_. frozenValue) (takeWhile (\<lambda>r. \<bar>r - k0\<bar> < threshold c) rs)
        @ dropWhile (\<lambda>r. \<bar>r - k0\<bar> < threshold c) rs,
      (KnobCapture_Capture k0 frozenValue c)
        \<lparr>is_frozen := list_all (\<lambda>r. \<bar>r - k0\<bar> < threshold c) rs\<rparr>)"
  using KnobCapture_run_frozen [of "KnobCapture_Capture k0 frozenValue c" rs]
  by (simp add: KnobCapture_Capture_def list_all_iff)

theorem KnobCapture_soft_takeover_witness:
  "fst (KnobCapture_run (KnobCapture_Capture (1/2) 7 (KnobCapture_new (1/20)))
          [1/2, 27/50, 11/20, 1/2, 3/5])
     = [7, 7, 11/20, 1/2, 3/5]"
  using KnobCapture_soft_takeover
          [of "1/2" 7 "KnobCapture_new (1/20)" "[1/2, 27/50, 11/20, 1/2, 3/5]"]
  by (simp add: KnobCapture_new_def)

section \<open>Hall reverb: results\<close>

lemma HallReverb_apply_decay_range:
  "0 \<le> hr_decay r \<and> hr_decay r \<le> 0.999 \<Longrightarrow>
   0 \<le> hr_decay (HallReverb_apply s r) \<and> hr_decay (HallReverb_apply s r) \<le> 0.999"
  by (cases s)
     (simp_all add: HallReverb_SetDecay_def HallReverb_SetDiffusion_def
        HallReverb_SetTankModSpeed_def HallReverb_SetTankModDepth_def Let_def)

lemma HallReverb_fold_decay_range:
  "0 \<le> hr_decay r \<and> hr_decay r \<le> 0.999 \<Longrightarrow>
   0 \<le> hr_decay (fold HallReverb_apply ss r) \<and> hr_decay (fold HallReverb_apply ss r) \<le> 0.999"
proof (induction ss arbitrary: r)
  case Nil
  then show ?case by simp
next
  case (Cons s ss)
  from Cons.prems have "0 \<le> hr_decay (HallReverb_apply s r) \<and> hr_decay (HallReverb_apply s r) \<le> 0.999"
    by (rule HallReverb_apply_decay_range)
  then show ?case using Cons.IH by simp
qed

text \<open>
  C6. Whatever value is passed to \<open>HallReverb::SetDecay\<close> (below 0 and above 1 included),
  the stored decay coefficient is the input clamped to the closed interval from 0 to
  0.999; it stays in that interval under every later sequence of setter calls, and it is
  the factor by which the feedback write multiplies each damped line output.
\<close>

theorem HallReverb_SetDecay_clamped:
  "hr_decay (HallReverb_SetDecay v r) = max 0 (min 0.999 v) \<and>
   0 \<le> hr_decay (fold HallReverb_apply ss (HallReverb_SetDecay v r)) \<and>
   hr_decay (fold HallReverb_apply ss (HallReverb_SetDecay v r)) \<le> 0.999 \<and>
   HallReverb_feedback_write (HallReverb_SetDecay v r) damped in_scaled =
     map (\<lambda>y. y * max 0 (min 0.999 v) + in_scaled) damped"
proof -
  have eq: "hr_decay (HallReverb_SetDecay v r) = max 0 (min 0.999 v)"
    by (simp add: HallReverb_SetDecay_def max_def min_def)
  have "0 \<le> hr_decay (HallReverb_SetDecay v r) \<and> hr_decay (HallReverb_SetDecay v r) \<le> 0.999"
    by (simp add: HallReverb_SetDecay_def)
  then have "0 \<le> hr_decay (fold HallReverb_apply ss (HallReverb_SetDecay v r)) \<and>
             hr_decay (fold HallReverb_apply ss (HallReverb_SetDecay v r)) \<le> 0.999"
    by (rule HallReverb_fold_decay_range)
  moreover have "HallReverb_feedback_write (HallReverb_SetDecay v r) damped in_scaled =
     map (\<lambda>y. y * max 0 (min 0.999 v) + in_scaled) damped"
    by (simp only: HallReverb_feedback_write_def eq)
  ultimately show ?thesis using eq by simp
qed

theorem HallReverb_SetDecay_clamped_witness:
  "hr_decay (HallReverb_SetDecay 7 HallReverb_new) = 0.999 \<and>
   hr_decay (HallReverb_SetDecay (- 3) HallReverb_new) = 0 \<and>
   hr_decay (HallReverb_SetDecay 0.95 HallReverb_new) = 0.95"
  using HallReverb_SetDecay_clamped [of 7 HallReverb_new "[]" "[]" 0]
        HallReverb_SetDecay_clamped [of "- 3" HallReverb_new "[]" "[]" 0]
        HallReverb_SetDecay_clamped [of "0.95" HallReverb_new "[]" "[]" 0]
  by simp






section \<open>Delay effect: results\<close>

subsection \<open>Rounding to binary32\<close>


lemma round_half_even_of_int [simp]: "round_half_even (of_int n) = n"
  by (simp add: round_half_even_def)






lemma f32_exponent_eq:
  assumes "2 powi e \<le> \<bar>x\<bar>" and "\<bar>x\<bar> < 2 powi (e + 1)" and "- 126 \<le> e"
  shows "f32_exponent x = e"
proof -
  have "0 < (2::real) powi e" by simp
  with assms(1) have pos: "0 < \<bar>x\<bar>" by linarith
  have a: "2 powr (of_int e) = (2::real) powi e"
    by (rule powr_real_of_int') simp_all
  have b: "2 powr (of_int (e + 1)) = (2::real) powi (e + 1)"
    by (rule powr_real_of_int') simp_all
  have "\<lfloor>log 2 \<bar>x\<bar>\<rfloor> = e"
    using floor_log_eq_powr_iff [OF pos, of 2 e] assms a b by simp
  with assms(3) show ?thesis by (simp add: f32_exponent_def)
qed








lemma f32_zero [simp]: "f32 0 = 0"
  by (simp add: f32_def)





subsection \<open>One smoothing step\<close>



text \<open>
  To evaluate \<open>f32\<close> at a given number it is enough to name the binade of the number.
\<close>

lemma f32_eval:
  assumes "2 powi e \<le> \<bar>x\<bar>" and "\<bar>x\<bar> < 2 powi (e + 1)" and "- 126 \<le> e"
  shows "f32 x = of_int (round_half_even (x / 2 powi (e - 23))) * 2 powi (e - 23)"
proof -
  have "\<not> (2::real) powi e \<le> 0" by (simp add: not_le)
  with assms(1) have "x \<noteq> 0" by auto
  then show ?thesis by (simp add: f32_def f32_ulp_def f32_exponent_eq [OF assms])
qed

lemma coeff_value: "f32 0.0002 = 13743895 / 2 ^ 36"
  by (subst f32_eval [of "- 13"]) (simp_all add: round_half_even_def)




text \<open>
  With the multiplication and the addition fused into one rounding, as a compiler may do,
  the same update leaves the read position at 19995.1171875 as well.
\<close>

lemma stall_step_fused:
  "f32 (19995.1171875 + f32 0.0002 * f32 (20000 - 19995.1171875)) = 19995.1171875"
proof -
  have a: "f32 (20000 - 19995.1171875) = 4.8828125"
    by (subst f32_eval [of 2]) (simp_all add: round_half_even_def)
  have c: "f32 (19995.1171875 + 13743895 / 2 ^ 36 * 4.8828125) = 19995.1171875"
    by (subst f32_eval [of 14]) (simp_all add: round_half_even_def)
  show ?thesis
    unfolding coeff_value a c ..
qed

subsection \<open>Runs of \<open>ProcessSample\<close>\<close>



















section \<open>Tap tempo: results\<close>

lemma bind_fault_simps [simp]:
  "bind_fault (Inr x) f = f x"
  "bind_fault (Inl e) f = Inl e"
  by (simp_all add: bind_fault_def)

lemma tap_total_1: "tap_total (a, b, c) (Suc 0) = Inr (a - b)"
  by (simp add: tap_read_def array_read_def)

lemma tap_total_2: "tap_total (a, b, c) (Suc (Suc 0)) = Inr ((a - b) + (b - c))"
  by (simp add: tap_read_def array_read_def)

lemma tap_clamp_eq:
  "(if (if x < SAMPLE_RATE * DELAY_TIME_MIN_SECONDS then SAMPLE_RATE * DELAY_TIME_MIN_SECONDS else x) > MAX_DELAY
      then MAX_DELAY
    else (if x < SAMPLE_RATE * DELAY_TIME_MIN_SECONDS then SAMPLE_RATE * DELAY_TIME_MIN_SECONDS else x))
   = max (SAMPLE_RATE * DELAY_TIME_MIN_SECONDS) (min MAX_DELAY x)"
  by (simp add: SAMPLE_RATE_def DELAY_TIME_MIN_SECONDS_def MAX_DELAY_def max_def min_def)

lemma registerTap_no_estimate:
  assumes "tap_count (tap_tempo s) \<le> 0"
  shows "registerTap hw s =
           Inr (s\<lparr>tap_tempo := (tap_tempo s)
                  \<lparr>tap_timestamps := (case tap_timestamps (tap_tempo s) of (t0, t1, t2) \<Rightarrow> (now hw, t0, t1)),
                   tap_count := tap_count (tap_tempo s) + 1,
                   last_tap_time := now hw, tap_flash_counter := TAP_FLASH_CALLBACKS\<rparr>\<rparr>)"
  using assms by (simp add: registerTap_def Let_def)

lemma registerTap_second:
  assumes "tap_count (tap_tempo s) = 1" and "tap_timestamps (tap_tempo s) = (t0, t1, t2)"
  shows "registerTap hw s =
          Inr ((saveBypassStates
             (s\<lparr>tap_tempo := (tap_tempo s)
                  \<lparr>tap_timestamps := (now hw, t0, t1), tap_count := 2,
                   tapped_delay_samples :=
                      max (SAMPLE_RATE * DELAY_TIME_MIN_SECONDS)
                        (min MAX_DELAY (real (unat (now hw - t0)) * SAMPLE_RATE / 1000)),
                   tapped_tempo_ms := real (unat (now hw - t0))\<rparr>\<rparr>))
               \<lparr>tap_tempo := (tap_tempo s)
                  \<lparr>tap_timestamps := (now hw, t0, t1), tap_count := 2,
                   tapped_delay_samples :=
                      max (SAMPLE_RATE * DELAY_TIME_MIN_SECONDS)
                        (min MAX_DELAY (real (unat (now hw - t0)) * SAMPLE_RATE / 1000)),
                   tapped_tempo_ms := real (unat (now hw - t0)),
                   last_tap_time := now hw, tap_flash_counter := TAP_FLASH_CALLBACKS\<rparr>\<rparr>)"
  unfolding registerTap_def Let_def tap_clamp_eq
  using assms by (simp add: tap_read_def array_read_def saveBypassStates_def)

lemma registerTap_third:
  assumes "tap_count (tap_tempo s) = 2 \<or> tap_count (tap_tempo s) = 3"
      and "tap_timestamps (tap_tempo s) = (t0, t1, t2)"
  shows "registerTap hw s =
          Inr ((saveBypassStates
             (s\<lparr>tap_tempo := (tap_tempo s)
                  \<lparr>tap_timestamps := (now hw, t0, t1), tap_count := 3,
                   tapped_delay_samples :=
                      max (SAMPLE_RATE * DELAY_TIME_MIN_SECONDS)
                        (min MAX_DELAY (real (unat ((now hw - t0) + (t0 - t1))) / 2 * SAMPLE_RATE / 1000)),
                   tapped_tempo_ms := real (unat ((now hw - t0) + (t0 - t1))) / 2\<rparr>\<rparr>))
               \<lparr>tap_tempo := (tap_tempo s)
                  \<lparr>tap_timestamps := (now hw, t0, t1), tap_count := 3,
                   tapped_delay_samples :=
                      max (SAMPLE_RATE * DELAY_TIME_MIN_SECONDS)
                        (min MAX_DELAY (real (unat ((now hw - t0) + (t0 - t1))) / 2 * SAMPLE_RATE / 1000)),
                   tapped_tempo_ms := real (unat ((now hw - t0) + (t0 - t1))) / 2,
                   last_tap_time := now hw, tap_flash_counter := TAP_FLASH_CALLBACKS\<rparr>\<rparr>)"
  unfolding registerTap_def Let_def tap_clamp_eq
  using assms by (auto simp add: tap_read_def array_read_def numeral_2_eq_2 saveBypassStates_def)

lemma registerTap_shape:
  assumes "0 \<le> tap_count (tap_tempo s)" and "tap_count (tap_tempo s) \<le> 3"
      and "tap_timestamps (tap_tempo s) = (t0, t1, t2)"
  shows "\<exists>s'. registerTap hw s = Inr s' \<and>
              tap_count (tap_tempo s') = min 3 (tap_count (tap_tempo s) + 1) \<and>
              tap_timestamps (tap_tempo s') = (now hw, t0, t1)"
proof -
  from assms(1,2) consider "tap_count (tap_tempo s) \<le> 0" | "tap_count (tap_tempo s) = 1"
    | "tap_count (tap_tempo s) = 2 \<or> tap_count (tap_tempo s) = 3"
    by linarith
  then show ?thesis
  proof cases
    case 1
    with assms(1) have "tap_count (tap_tempo s) = 0" by simp
    with registerTap_no_estimate [OF 1, of hw] assms(3) show ?thesis by simp
  next
    case 2
    with registerTap_second [OF 2 assms(3), of hw] show ?thesis
      by (simp add: saveBypassStates_def)
  next
    case 3
    with registerTap_third [OF 3 assms(3), of hw] show ?thesis
      by (auto simp add: saveBypassStates_def)
  qed
qed

lemma three_taps:
  assumes inv: "0 \<le> tap_count (tap_tempo s)" "tap_count (tap_tempo s) \<le> 3"
      and t2: "now hw2 = now hw1 + 500" and t3: "now hw3 = now hw1 + 1000"
  shows "\<exists>s3. bind_fault (registerTap hw1 s) (\<lambda>s1.
               bind_fault (registerTap hw2 s1) (\<lambda>s2. registerTap hw3 s2)) = Inr s3 \<and>
              tapped_tempo_ms (tap_tempo s3) = 500 \<and>
              tapped_delay_samples (tap_tempo s3) = 24000"
proof -
  obtain a b c where ts: "tap_timestamps (tap_tempo s) = (a, b, c)"
    by (cases "tap_timestamps (tap_tempo s)") auto
  from registerTap_shape [OF inv ts, of hw1] obtain s1 where
    s1: "registerTap hw1 s = Inr s1"
    and c1: "tap_count (tap_tempo s1) = min 3 (tap_count (tap_tempo s) + 1)"
    and ts1: "tap_timestamps (tap_tempo s1) = (now hw1, a, b)" by blast
  from c1 inv have inv1: "0 \<le> tap_count (tap_tempo s1)" "tap_count (tap_tempo s1) \<le> 3"
    and ge1: "1 \<le> tap_count (tap_tempo s1)" by simp_all
  from registerTap_shape [OF inv1 ts1, of hw2] obtain s2 where
    s2: "registerTap hw2 s1 = Inr s2"
    and c2: "tap_count (tap_tempo s2) = min 3 (tap_count (tap_tempo s1) + 1)"
    and ts2: "tap_timestamps (tap_tempo s2) = (now hw2, now hw1, a)" by blast
  from c2 ge1 inv1 have "tap_count (tap_tempo s2) = 2 \<or> tap_count (tap_tempo s2) = 3"
    by (simp add: min_def)
  note third = registerTap_third [OF this ts2, of hw3]
  have total: "(now hw3 - now hw2) + (now hw2 - now hw1) = (1000 :: 32 word)"
    by (simp add: t2 t3)
  show ?thesis
    unfolding s1 s2 bind_fault_simps third total
    by (simp add: saveBypassStates_def SAMPLE_RATE_def DELAY_TIME_MIN_SECONDS_def MAX_DELAY_def)
qed

text \<open>
  C5. At the 48000 Hz sample rate, with the tap count in its range 0..3: registering three
  taps whose timestamps are exactly 500 ms apart (the 32-bit clock may wrap in between)
  leaves a stored tempo of 500 ms and a stored delay length of 24000 samples, which is
  0.5 times the sample rate; a single tap on a fresh estimator (count 0) leaves the delay
  length and the tempo unchanged; and whenever a tap is registered with at least one tap
  retained, so that an estimate is produced, the stored tempo is the average of the
  retained consecutive intervals (one interval when the count was 1, two otherwise) and
  the stored delay length is that average converted to samples and clamped to the range
  from 0.05 s to 2 s worth of samples.
\<close>

theorem registerTap_estimate:
  assumes "0 \<le> tap_count (tap_tempo s)" and "tap_count (tap_tempo s) \<le> 3"
  shows "(now hw2 = now hw1 + 500 \<and> now hw3 = now hw1 + 1000 \<longrightarrow>
            (\<exists>s3. bind_fault (registerTap hw1 s) (\<lambda>s1.
                     bind_fault (registerTap hw2 s1) (\<lambda>s2. registerTap hw3 s2)) = Inr s3 \<and>
                   tapped_tempo_ms (tap_tempo s3) = 500 \<and>
                   tapped_delay_samples (tap_tempo s3) = 24000 \<and>
                   tapped_delay_samples (tap_tempo s3) = 0.5 * SAMPLE_RATE)) \<and>
         (tap_count (tap_tempo s) = 0 \<longrightarrow>
            (\<exists>s1. registerTap hw s = Inr s1 \<and>
                   tapped_delay_samples (tap_tempo s1) = tapped_delay_samples (tap_tempo s) \<and>
                   tapped_tempo_ms (tap_tempo s1) = tapped_tempo_ms (tap_tempo s))) \<and>
         (1 \<le> tap_count (tap_tempo s) \<longrightarrow>
            (\<exists>s1. registerTap hw s = Inr s1 \<and>
               (case tap_timestamps (tap_tempo s) of (t0, t1, t2) \<Rightarrow>
                  (let avg_ms = (if tap_count (tap_tempo s) = 1
                                   then real (unat (now hw - t0))
                                 else real (unat ((now hw - t0) + (t0 - t1))) / 2)
                   in tapped_tempo_ms (tap_tempo s1) = avg_ms \<and>
                      tapped_delay_samples (tap_tempo s1) =
                        max (0.05 * 48000) (min (2 * 48000) (avg_ms * 48000 / 1000))))))"
proof (intro conjI impI)
  assume "now hw2 = now hw1 + 500 \<and> now hw3 = now hw1 + 1000"
  then have t2: "now hw2 = now hw1 + 500" and t3: "now hw3 = now hw1 + 1000" by simp_all
  from three_taps [OF assms t2 t3]
  show "\<exists>s3. bind_fault (registerTap hw1 s) (\<lambda>s1.
                bind_fault (registerTap hw2 s1) (\<lambda>s2. registerTap hw3 s2)) = Inr s3 \<and>
              tapped_tempo_ms (tap_tempo s3) = 500 \<and>
              tapped_delay_samples (tap_tempo s3) = 24000 \<and>
              tapped_delay_samples (tap_tempo s3) = 0.5 * SAMPLE_RATE"
    by (auto simp add: SAMPLE_RATE_def)
next
  assume "tap_count (tap_tempo s) = 0"
  then have "tap_count (tap_tempo s) \<le> 0" by simp
  from registerTap_no_estimate [OF this, of hw]
  show "\<exists>s1. registerTap hw s = Inr s1 \<and>
              tapped_delay_samples (tap_tempo s1) = tapped_delay_samples (tap_tempo s) \<and>
              tapped_tempo_ms (tap_tempo s1) = tapped_tempo_ms (tap_tempo s)"
    by simp
next
  assume ge: "1 \<le> tap_count (tap_tempo s)"
  obtain a b c where ts: "tap_timestamps (tap_tempo s) = (a, b, c)"
    by (cases "tap_timestamps (tap_tempo s)") auto
  from ge assms(2) consider "tap_count (tap_tempo s) = 1"
    | "tap_count (tap_tempo s) = 2 \<or> tap_count (tap_tempo s) = 3"
    by linarith
  then show "\<exists>s1. registerTap hw s = Inr s1 \<and>
               (case tap_timestamps (tap_tempo s) of (t0, t1, t2) \<Rightarrow>
                  (let avg_ms = (if tap_count (tap_tempo s) = 1
                                   then real (unat (now hw - t0))
                                 else real (unat ((now hw - t0) + (t0 - t1))) / 2)
                   in tapped_tempo_ms (tap_tempo s1) = avg_ms \<and>
                      tapped_delay_samples (tap_tempo s1) =
                        max (0.05 * 48000) (min (2 * 48000) (avg_ms * 48000 / 1000))))"
  proof cases
    case 1
    show ?thesis
      unfolding registerTap_second [OF 1 ts, of hw] ts
      using 1 by (simp add: SAMPLE_RATE_def DELAY_TIME_MIN_SECONDS_def MAX_DELAY_def)
  next
    case 2
    then have ne: "tap_count (tap_tempo s) \<noteq> 1" by auto
    show ?thesis
      unfolding registerTap_third [OF 2 ts, of hw] ts
      using ne by (simp add: SAMPLE_RATE_def DELAY_TIME_MIN_SECONDS_def MAX_DELAY_def)
  qed
qed

theorem registerTap_estimate_witness:
  "(0::int) \<le> tap_count (tap_tempo Flick_started) \<and> tap_count (tap_tempo Flick_started) \<le> 3 \<and>
   now (HwReads_idle 4294967000) = now (HwReads_idle 4294966500) + 500 \<and>
   now (HwReads_idle 204) = now (HwReads_idle 4294966500) + 1000 \<and>
   (\<exists>s3. bind_fault (registerTap (HwReads_idle 4294966500) Flick_started) (\<lambda>s1.
            bind_fault (registerTap (HwReads_idle 4294967000) s1) (\<lambda>s2.
              registerTap (HwReads_idle 204) s2)) = Inr s3 \<and>
          tapped_tempo_ms (tap_tempo s3) = 500 \<and>
          tapped_delay_samples (tap_tempo s3) = 24000)"
proof -
  have c: "tap_count (tap_tempo Flick_started) = 0"
    by (simp add: Flick_started_def Flick_globals_def TapTempoState_new_def)
  have t2: "now (HwReads_idle 4294967000) = now (HwReads_idle 4294966500) + 500"
    by (simp add: HwReads_idle_def)
  have t3: "now (HwReads_idle 204) = now (HwReads_idle 4294966500) + 1000"
    by (simp add: HwReads_idle_def)
  have "0 \<le> tap_count (tap_tempo Flick_started)" "tap_count (tap_tempo Flick_started) \<le> 3"
    by (simp_all add: c)
  from registerTap_estimate [OF this, of "HwReads_idle 4294967000" "HwReads_idle 4294966500"
         "HwReads_idle 204"] t2 t3 c
  show ?thesis by auto
qed


section \<open>Footswitch handlers: results\<close>

lemma exitTapTempo_fields:
  "pedal_mode (exitTapTempo hw s) = PEDAL_MODE_NORMAL"
  "just_exited_tap_tempo (tap_tempo (exitTapTempo hw s)) = just_exited_tap_tempo (tap_tempo s)"
  "bypass (exitTapTempo hw s) = bypass s"
  "engines (exitTapTempo hw s) = engines s"
  by (simp_all add: exitTapTempo_def Let_def saveBypassStates_def)

lemma saveBypassStates_fields:
  "pedal_mode (saveBypassStates s) = pedal_mode s"
  "tap_tempo (saveBypassStates s) = tap_tempo s"
  "bypass (saveBypassStates s) = bypass s"
  "engines (saveBypassStates s) = engines s"
  "delay_time_target (saveBypassStates s) = delay_time_target s"
  by (simp_all add: saveBypassStates_def)

lemma guard_consumes:
  assumes "just_exited_tap_tempo (tap_tempo s)"
  shows "handleDoublePress fs hw s = Inr (s\<lparr>tap_tempo := (tap_tempo s)\<lparr>just_exited_tap_tempo := False\<rparr>\<rparr>)"
    and "handleLongPress fs hw s = Inr (s\<lparr>tap_tempo := (tap_tempo s)\<lparr>just_exited_tap_tempo := False\<rparr>\<rparr>)"
  using assms by (simp_all add: handleDoublePress_def handleLongPress_def)

lemma normal_press_exits:
  assumes "pedal_mode s = PEDAL_MODE_TAP_TEMPO"
  shows "\<exists>s1. handleNormalPress FOOTSWITCH_1 hw s = Inr s1 \<and> pedal_mode s1 = PEDAL_MODE_NORMAL \<and>
              just_exited_tap_tempo (tap_tempo s1)"
  using assms by (simp add: handleNormalPress_def Let_def exitTapTempo_fields)

lemma normal_press_ignores_guard:
  assumes "pedal_mode s \<noteq> PEDAL_MODE_TAP_TEMPO"
  shows "handleNormalPress fs hw s =
           handleNormalPress fs hw (s\<lparr>tap_tempo := (tap_tempo s)\<lparr>just_exited_tap_tempo := False\<rparr>\<rparr>)"
  using assms by (simp add: handleNormalPress_def Let_def)

lemma normal_press_normal_mode:
  assumes "pedal_mode s = PEDAL_MODE_NORMAL"
  shows "\<exists>s1. handleNormalPress FOOTSWITCH_1 hw s = Inr s1 \<and>
           pedal_mode s1 = PEDAL_MODE_NORMAL \<and>
           \<not> just_exited_tap_tempo (tap_tempo s1) \<and>
           bp_reverb (bypass s1) = (\<not> bp_reverb (bypass s)) \<and>
           bp_delay (bypass s1) = bp_delay (bypass s) \<and>
           bp_tremolo (bypass s1) = bp_tremolo (bypass s) \<and>
           current_reverb (engines s1) = current_reverb (engines s) \<and>
           delay_time_target s1 = delay_time_target s \<and>
           engines s1 = (if bp_reverb (bypass s) then engines s
                         else (case current_reverb (engines s) of None \<Rightarrow> engines s
                               | Some r \<Rightarrow> ReverbEffect_Clear r (engines s)))"
  using assms
  by (auto simp add: handleNormalPress_def Let_def saveBypassStates_fields ReverbEffect_Clear_def
        split: option.splits ReverbType.splits)

text \<open>
  Outside TapTempo mode a normal press of either footswitch, in whatever mode it is
  handled, leaves the guard cleared.
\<close>

lemma updatePlateReverbParameters_tap_tempo:
  "updatePlateReverbParameters s = Inr s1 \<Longrightarrow> tap_tempo s1 = tap_tempo s"
  by (auto simp add: updatePlateReverbParameters_def bind_fault_def Let_def
        split: sum.splits if_splits)

lemma updateReverbScales_tap_tempo: "tap_tempo (updateReverbScales m s) = tap_tempo s"
  by (simp add: updateReverbScales_def Let_def)

lemma normal_press_clears_guard:
  assumes "pedal_mode s \<noteq> PEDAL_MODE_TAP_TEMPO" and "handleNormalPress fs hw s = Inr s1"
  shows "\<not> just_exited_tap_tempo (tap_tempo s1)"
  using assms
  by (auto simp add: handleNormalPress_def Let_def saveBypassStates_def saveSettings_def
        saveDeviceSettings_def restoreDeviceSettings_def restoreReverbSettings_def
        updateReverbScales_tap_tempo bind_fault_def
        dest!: updatePlateReverbParameters_tap_tempo split: if_splits sum.splits option.splits)

lemma enterTapTempo_fields:
  assumes "0 \<le> sw3 hw" "sw3 hw \<le> 2"
  shows "\<exists>s1. enterTapTempo hw s = Inr s1 \<and> pedal_mode s1 = PEDAL_MODE_TAP_TEMPO \<and>
           bp_reverb (bypass s1) = bp_reverb (bypass s) \<and> engines s1 = engines s \<and>
           \<not> bp_delay (bypass s1)"
proof -
  from assms have "sw3 hw = 0 \<or> sw3 hw = 1 \<or> sw3 hw = 2" by linarith
  then show ?thesis
    by (auto simp add: enterTapTempo_def Let_def array_read_def kDelayTimingMap_def
          kDelayTimingMultiplier_def DELAY_TIMING_DOTTED_EIGHTH_def DELAY_TIMING_QUARTER_def
          DELAY_TIMING_TRIPLET_def saveBypassStates_fields)
qed


lemma auto_exit:
  assumes "pedal_mode s = PEDAL_MODE_TAP_TEMPO"
      and "now hw - last_tap_time (tap_tempo s) > TAP_TEMPO_TIMEOUT_MS"
      and "0 \<le> sw3 hw" "sw3 hw \<le> 2"
  shows "\<exists>s1. AudioCallback_delay_control hw s = Inr s1 \<and> pedal_mode s1 = PEDAL_MODE_NORMAL \<and>
              just_exited_tap_tempo (tap_tempo s1) = just_exited_tap_tempo (tap_tempo s)"
proof -
  from assms(3,4) have "sw3 hw = 0 \<or> sw3 hw = 1 \<or> sw3 hw = 2" by linarith
  then show ?thesis
    using assms(1,2)
    by (auto simp add: AudioCallback_delay_control_def Let_def array_read_def kDelayTimingMap_def
          kDelayTimingMultiplier_def DELAY_TIMING_DOTTED_EIGHTH_def DELAY_TIMING_QUARTER_def
          DELAY_TIMING_TRIPLET_def exitTapTempo_fields)
qed

lemma Clear_memory:
  "reverb_memory r (ReverbEffect_Clear r e) = map (\<lambda>_. 0) (reverb_memory r e)"
  by (cases r) (simp_all add: reverb_memory_def ReverbEffect_Clear_def)

lemma normal_then_double_press:
  assumes "pedal_mode s = PEDAL_MODE_NORMAL" and "0 \<le> sw3 hw2" and "sw3 hw2 \<le> 2"
  shows "\<exists>s1 s2. handleNormalPress FOOTSWITCH_1 hw1 s = Inr s1 \<and>
                 handleDoublePress FOOTSWITCH_1 hw2 s1 = Inr s2 \<and>
                 bp_reverb (bypass s1) = (\<not> bp_reverb (bypass s)) \<and>
                 bp_reverb (bypass s2) = bp_reverb (bypass s) \<and>
                 pedal_mode s2 = PEDAL_MODE_TAP_TEMPO \<and>
                 (\<not> bp_reverb (bypass s) \<longrightarrow>
                    (\<forall>r. current_reverb (engines s) = Some r \<longrightarrow>
                       reverb_memory r (engines s1) = map (\<lambda>_. 0) (reverb_memory r (engines s)) \<and>
                       reverb_memory r (engines s2) = map (\<lambda>_. 0) (reverb_memory r (engines s))))"
proof -
  from normal_press_normal_mode [OF assms(1), of hw1] obtain s1 where
    n1: "handleNormalPress FOOTSWITCH_1 hw1 s = Inr s1"
    and m1: "pedal_mode s1 = PEDAL_MODE_NORMAL"
    and g1: "\<not> just_exited_tap_tempo (tap_tempo s1)"
    and b1: "bp_reverb (bypass s1) = (\<not> bp_reverb (bypass s))"
    and e1: "engines s1 = (if bp_reverb (bypass s) then engines s
                         else (case current_reverb (engines s) of None \<Rightarrow> engines s
                               | Some r \<Rightarrow> ReverbEffect_Clear r (engines s)))"
    by blast
  from normal_press_normal_mode [OF m1, of hw2] obtain s1' where
    n2: "handleNormalPress FOOTSWITCH_1 hw2 s1 = Inr s1'"
    and b2: "bp_reverb (bypass s1') = (\<not> bp_reverb (bypass s1))"
    and e2: "engines s1' = (if bp_reverb (bypass s1) then engines s1
                         else (case current_reverb (engines s1) of None \<Rightarrow> engines s1
                               | Some r \<Rightarrow> ReverbEffect_Clear r (engines s1)))"
    by blast
  from enterTapTempo_fields [OF assms(2,3), of s1'] obtain s2 where
    t: "enterTapTempo hw2 s1' = Inr s2" and m2: "pedal_mode s2 = PEDAL_MODE_TAP_TEMPO"
    and b3: "bp_reverb (bypass s2) = bp_reverb (bypass s1')" and e3: "engines s2 = engines s1'"
    by blast
  have d: "handleDoublePress FOOTSWITCH_1 hw2 s1 = Inr s2"
    using g1 m1 n2 t by (simp add: handleDoublePress_def)
  have mem: "reverb_memory r (engines s1) = map (\<lambda>_. 0) (reverb_memory r (engines s)) \<and>
             reverb_memory r (engines s2) = map (\<lambda>_. 0) (reverb_memory r (engines s))"
    if "\<not> bp_reverb (bypass s)" and "current_reverb (engines s) = Some r" for r
    using that b1 e1 e2 e3 by (simp add: Clear_memory)
  from n1 d b1 b2 b3 m2 mem show ?thesis by auto
qed


lemma long_press_enters_edit:
  assumes "pedal_mode s = PEDAL_MODE_NORMAL" and "\<not> just_exited_tap_tempo (tap_tempo s)"
      and "\<not> (fs1_pressed hw \<and> fs2_pressed hw)"
  shows "\<exists>s1. handleLongPress FOOTSWITCH_1 hw s = Inr s1 \<and> pedal_mode s1 = PEDAL_MODE_EDIT_REVERB"
proof -
  from normal_press_normal_mode [OF assms(1), of hw] obtain s' where
    "handleNormalPress FOOTSWITCH_1 hw s = Inr s'" by blast
  with assms show ?thesis
    by (auto simp add: handleLongPress_def Let_def)
qed

lemma started_facts:
  "pedal_mode Flick_started = PEDAL_MODE_NORMAL"
  "\<not> just_exited_tap_tempo (tap_tempo Flick_started)"
  "bp_reverb (bypass Flick_started)"
  "current_reverb (engines Flick_started) = Some REVERB_PLATE"
  by (simp_all add: Flick_started_def Flick_globals_def TapTempoState_new_def
        ReverbEngines_silent_def)

lemma idle_facts:
  "now (HwReads_idle t) = t" "sw3 (HwReads_idle t) = 1"
  "\<not> fs1_pressed (HwReads_idle t)" "\<not> fs2_pressed (HwReads_idle t)"
  by (simp_all add: HwReads_idle_def)

text \<open>
  C2 (as amended). When TapTempo mode is left by the normal press of footswitch A, the
  suppression flag is set, and while the flag is set a double-press or a long-press event
  (on either footswitch) is consumed: it changes nothing except clearing the flag. A
  normal-press event is not suppressed: outside TapTempo mode it clears the flag and is
  handled as any normal press, so that in Normal mode a press of footswitch A toggles the
  reverb bypass. The auto-exit after the 4-second timeout leaves the flag as it was, so no
  gesture is suppressed on its account.
\<close>

theorem tap_tempo_exit_guard:
  "(pedal_mode s = PEDAL_MODE_TAP_TEMPO \<longrightarrow>
      (\<exists>s1. handleNormalPress FOOTSWITCH_1 hw s = Inr s1 \<and> pedal_mode s1 = PEDAL_MODE_NORMAL \<and>
             just_exited_tap_tempo (tap_tempo s1))) \<and>
   (just_exited_tap_tempo (tap_tempo s) \<longrightarrow>
      handleDoublePress fs hw s =
        Inr (s\<lparr>tap_tempo := (tap_tempo s)\<lparr>just_exited_tap_tempo := False\<rparr>\<rparr>) \<and>
      handleLongPress fs hw s =
        Inr (s\<lparr>tap_tempo := (tap_tempo s)\<lparr>just_exited_tap_tempo := False\<rparr>\<rparr>)) \<and>
   (pedal_mode s \<noteq> PEDAL_MODE_TAP_TEMPO \<longrightarrow>
      handleNormalPress fs hw s =
        handleNormalPress fs hw (s\<lparr>tap_tempo := (tap_tempo s)\<lparr>just_exited_tap_tempo := False\<rparr>\<rparr>)) \<and>
   (pedal_mode s = PEDAL_MODE_NORMAL \<longrightarrow>
      (\<exists>s1. handleNormalPress FOOTSWITCH_1 hw s = Inr s1 \<and>
             \<not> just_exited_tap_tempo (tap_tempo s1) \<and>
             bp_reverb (bypass s1) = (\<not> bp_reverb (bypass s)))) \<and>
   (pedal_mode s = PEDAL_MODE_TAP_TEMPO \<and>
    now hw - last_tap_time (tap_tempo s) > TAP_TEMPO_TIMEOUT_MS \<and> 0 \<le> sw3 hw \<and> sw3 hw \<le> 2 \<longrightarrow>
      (\<exists>s1. AudioCallback_delay_control hw s = Inr s1 \<and> pedal_mode s1 = PEDAL_MODE_NORMAL \<and>
             just_exited_tap_tempo (tap_tempo s1) = just_exited_tap_tempo (tap_tempo s)))"
proof (intro conjI impI)
  assume "pedal_mode s = PEDAL_MODE_TAP_TEMPO"
  then show "\<exists>s1. handleNormalPress FOOTSWITCH_1 hw s = Inr s1 \<and> pedal_mode s1 = PEDAL_MODE_NORMAL \<and>
             just_exited_tap_tempo (tap_tempo s1)"
    by (rule normal_press_exits)
next
  assume "just_exited_tap_tempo (tap_tempo s)"
  then show "handleDoublePress fs hw s =
        Inr (s\<lparr>tap_tempo := (tap_tempo s)\<lparr>just_exited_tap_tempo := False\<rparr>\<rparr>)"
    by (rule guard_consumes)
next
  assume "just_exited_tap_tempo (tap_tempo s)"
  then show "handleLongPress fs hw s =
        Inr (s\<lparr>tap_tempo := (tap_tempo s)\<lparr>just_exited_tap_tempo := False\<rparr>\<rparr>)"
    by (rule guard_consumes)
next
  assume "pedal_mode s \<noteq> PEDAL_MODE_TAP_TEMPO"
  then show "handleNormalPress fs hw s =
        handleNormalPress fs hw (s\<lparr>tap_tempo := (tap_tempo s)\<lparr>just_exited_tap_tempo := False\<rparr>\<rparr>)"
    by (rule normal_press_ignores_guard)
next
  assume "pedal_mode s = PEDAL_MODE_NORMAL"
  from normal_press_normal_mode [OF this, of hw]
  show "\<exists>s1. handleNormalPress FOOTSWITCH_1 hw s = Inr s1 \<and>
             \<not> just_exited_tap_tempo (tap_tempo s1) \<and>
             bp_reverb (bypass s1) = (\<not> bp_reverb (bypass s))"
    by blast
next
  assume "pedal_mode s = PEDAL_MODE_TAP_TEMPO \<and>
    now hw - last_tap_time (tap_tempo s) > TAP_TEMPO_TIMEOUT_MS \<and> 0 \<le> sw3 hw \<and> sw3 hw \<le> 2"
  then show "\<exists>s1. AudioCallback_delay_control hw s = Inr s1 \<and> pedal_mode s1 = PEDAL_MODE_NORMAL \<and>
             just_exited_tap_tempo (tap_tempo s1) = just_exited_tap_tempo (tap_tempo s)"
    using auto_exit by blast
qed

theorem tap_tempo_exit_guard_witness:
  "pedal_mode (Flick_started\<lparr>pedal_mode := PEDAL_MODE_TAP_TEMPO\<rparr>) = PEDAL_MODE_TAP_TEMPO \<and>
   now (HwReads_idle 5000) - last_tap_time (tap_tempo (Flick_started\<lparr>pedal_mode := PEDAL_MODE_TAP_TEMPO\<rparr>))
     > TAP_TEMPO_TIMEOUT_MS \<and>
   (\<exists>s1. handleNormalPress FOOTSWITCH_1 (HwReads_idle 5000)
            (Flick_started\<lparr>pedal_mode := PEDAL_MODE_TAP_TEMPO\<rparr>) = Inr s1 \<and>
          pedal_mode s1 = PEDAL_MODE_NORMAL \<and> just_exited_tap_tempo (tap_tempo s1)) \<and>
   (\<exists>s1. AudioCallback_delay_control (HwReads_idle 5000)
            (Flick_started\<lparr>pedal_mode := PEDAL_MODE_TAP_TEMPO\<rparr>) = Inr s1 \<and>
          pedal_mode s1 = PEDAL_MODE_NORMAL \<and> \<not> just_exited_tap_tempo (tap_tempo s1)) \<and>
   just_exited_tap_tempo (tap_tempo
      (Flick_started\<lparr>tap_tempo := (tap_tempo Flick_started)\<lparr>just_exited_tap_tempo := True\<rparr>\<rparr>)) \<and>
   handleDoublePress FOOTSWITCH_1 (HwReads_idle 5000)
      (Flick_started\<lparr>tap_tempo := (tap_tempo Flick_started)\<lparr>just_exited_tap_tempo := True\<rparr>\<rparr>)
     = Inr Flick_started \<and>
   handleLongPress FOOTSWITCH_1 (HwReads_idle 5000)
      (Flick_started\<lparr>tap_tempo := (tap_tempo Flick_started)\<lparr>just_exited_tap_tempo := True\<rparr>\<rparr>)
     = Inr Flick_started \<and>
   (\<exists>s1. handleNormalPress FOOTSWITCH_1 (HwReads_idle 5000)
      (Flick_started\<lparr>tap_tempo := (tap_tempo Flick_started)\<lparr>just_exited_tap_tempo := True\<rparr>\<rparr>)
     = Inr s1 \<and> \<not> bp_reverb (bypass s1))"
proof -
  let ?s = "Flick_started\<lparr>pedal_mode := PEDAL_MODE_TAP_TEMPO\<rparr>"
  let ?g = "Flick_started\<lparr>tap_tempo := (tap_tempo Flick_started)\<lparr>just_exited_tap_tempo := True\<rparr>\<rparr>"
  have m: "pedal_mode ?s = PEDAL_MODE_TAP_TEMPO" by simp
  have t: "now (HwReads_idle 5000) - last_tap_time (tap_tempo ?s) > TAP_TEMPO_TIMEOUT_MS"
    by (simp add: idle_facts Flick_started_def Flick_globals_def TapTempoState_new_def
          TAP_TEMPO_TIMEOUT_MS_def)
  have g: "\<not> just_exited_tap_tempo (tap_tempo ?s)" by (simp add: started_facts)
  have sw: "0 \<le> sw3 (HwReads_idle 5000) \<and> sw3 (HwReads_idle 5000) \<le> 2" by (simp add: idle_facts)
  from tap_tempo_exit_guard [of ?s "HwReads_idle 5000" FOOTSWITCH_1] m t g sw
  have first: "(\<exists>s1. handleNormalPress FOOTSWITCH_1 (HwReads_idle 5000) ?s = Inr s1 \<and>
          pedal_mode s1 = PEDAL_MODE_NORMAL \<and> just_exited_tap_tempo (tap_tempo s1)) \<and>
   (\<exists>s1. AudioCallback_delay_control (HwReads_idle 5000) ?s = Inr s1 \<and>
          pedal_mode s1 = PEDAL_MODE_NORMAL \<and> \<not> just_exited_tap_tempo (tap_tempo s1))"
    by auto
  have fl: "just_exited_tap_tempo (tap_tempo ?g)" by simp
  have mg: "pedal_mode ?g = PEDAL_MODE_NORMAL" "pedal_mode ?g \<noteq> PEDAL_MODE_TAP_TEMPO"
    by (simp_all add: started_facts)
  have restored: "(?g)\<lparr>tap_tempo := (tap_tempo ?g)\<lparr>just_exited_tap_tempo := False\<rparr>\<rparr> = Flick_started"
    by (simp add: Flick_started_def Flick_globals_def TapTempoState_new_def)
  have bg: "bp_reverb (bypass ?g)" by (simp add: started_facts)
  note thg = tap_tempo_exit_guard [of ?g "HwReads_idle 5000" FOOTSWITCH_1]
  from thg fl have consumed:
    "handleDoublePress FOOTSWITCH_1 (HwReads_idle 5000) ?g = Inr Flick_started \<and>
     handleLongPress FOOTSWITCH_1 (HwReads_idle 5000) ?g = Inr Flick_started"
    unfolding restored by blast
  from thg mg(1) obtain s1 where
    "handleNormalPress FOOTSWITCH_1 (HwReads_idle 5000) ?g = Inr s1"
    and "bp_reverb (bypass s1) = (\<not> bp_reverb (bypass ?g))"
    by blast
  with bg have "\<exists>s1. handleNormalPress FOOTSWITCH_1 (HwReads_idle 5000) ?g = Inr s1 \<and>
                     \<not> bp_reverb (bypass s1)"
    by auto
  with consumed have second:
    "handleDoublePress FOOTSWITCH_1 (HwReads_idle 5000) ?g = Inr Flick_started \<and>
     handleLongPress FOOTSWITCH_1 (HwReads_idle 5000) ?g = Inr Flick_started \<and>
     (\<exists>s1. handleNormalPress FOOTSWITCH_1 (HwReads_idle 5000) ?g = Inr s1 \<and> \<not> bp_reverb (bypass s1))"
    by blast
  from m t first fl second show ?thesis by blast
qed

lemmas eval_defs =
  observed_def observe_def Flick_started_def Flick_globals_def HwReads_idle_def
  handleNormalPress_def handleDoublePress_def handleLongPress_def enterTapTempo_def
  exitTapTempo_def AudioCallback_delay_control_def
  saveBypassStates_def Let_def ReverbEngines_silent_def ReverbEffect_Clear_def
  TapTempoState_new_def KnobCapture_new_def KnobCapture_Capture_def KnobCapture_Reset_def
  KnobCapture_IsFrozen_def KnobCapture_Process_def array_read_def kDelayTimingMap_def
  kDelayTimingMultiplier_def
  DELAY_TIMING_QUARTER_def DELAY_TIMING_DOTTED_EIGHTH_def DELAY_TIMING_TRIPLET_def
  PersistentStorage_Init_def TAP_TEMPO_TIMEOUT_MS_def

text \<open>
  C2 as stated fails. From the started pedal, a press and a double press of footswitch A
  enter TapTempo mode with the reverb bypassed. After the exit by a normal press of
  footswitch A, which sets the guard, the next event, a normal press of footswitch A,
  toggles the reverb bypass. After the exit by the timeout, which leaves the guard clear,
  the next event, a long press of footswitch A, enters the reverb edit mode. Each line
  gives the pedal mode, the reverb bypass flag and the guard after the events listed.
\<close>

theorem tap_tempo_exit_guard_counterexample:
  "observed (run_events
      [(NormalPress FOOTSWITCH_1, HwReads_idle 0), (DoublePress FOOTSWITCH_1, HwReads_idle 300)]
      Flick_started)
     = Inr (PEDAL_MODE_TAP_TEMPO, True, False) \<and>
   observed (run_events
      [(NormalPress FOOTSWITCH_1, HwReads_idle 0), (DoublePress FOOTSWITCH_1, HwReads_idle 300),
       (NormalPress FOOTSWITCH_1, HwReads_idle 1000)] Flick_started)
     = Inr (PEDAL_MODE_NORMAL, True, True) \<and>
   observed (run_events
      [(NormalPress FOOTSWITCH_1, HwReads_idle 0), (DoublePress FOOTSWITCH_1, HwReads_idle 300),
       (NormalPress FOOTSWITCH_1, HwReads_idle 1000),
       (NormalPress FOOTSWITCH_1, HwReads_idle 1500)] Flick_started)
     = Inr (PEDAL_MODE_NORMAL, False, False) \<and>
   observed (run_events
      [(NormalPress FOOTSWITCH_1, HwReads_idle 0), (DoublePress FOOTSWITCH_1, HwReads_idle 300),
       (Block, HwReads_idle 5000)] Flick_started)
     = Inr (PEDAL_MODE_NORMAL, True, False) \<and>
   observed (run_events
      [(NormalPress FOOTSWITCH_1, HwReads_idle 0), (DoublePress FOOTSWITCH_1, HwReads_idle 300),
       (Block, HwReads_idle 5000), (LongPress FOOTSWITCH_1, HwReads_idle 6000)] Flick_started)
     = Inr (PEDAL_MODE_EDIT_REVERB, False, False)"
  by (simp add: eval_defs)

text \<open>
  C10. In Normal mode, when the normal-press event of footswitch A has been processed and
  the double-press event of the same gesture follows, the reverb bypass flag is back at its
  value from before the gesture when TapTempo mode is entered; but if the reverb was active
  before the gesture (and a reverb is selected), the first event cleared that reverb's
  delay memory, and the second event leaves it cleared: the tail is silenced although the
  flag is unchanged in the end. Toggle switch 3, whose position indexes the timing table
  on entering TapTempo mode, reads one of the positions 0, 1, 2.
\<close>

theorem double_press_keeps_flag_not_tail:
  assumes "pedal_mode s = PEDAL_MODE_NORMAL" and "0 \<le> sw3 hw2" and "sw3 hw2 \<le> 2"
  shows "\<exists>s1 s2. handleNormalPress FOOTSWITCH_1 hw1 s = Inr s1 \<and>
                 handleDoublePress FOOTSWITCH_1 hw2 s1 = Inr s2 \<and>
                 bp_reverb (bypass s1) = (\<not> bp_reverb (bypass s)) \<and>
                 bp_reverb (bypass s2) = bp_reverb (bypass s) \<and>
                 pedal_mode s2 = PEDAL_MODE_TAP_TEMPO \<and>
                 (\<not> bp_reverb (bypass s) \<longrightarrow>
                    (\<forall>r. current_reverb (engines s) = Some r \<longrightarrow>
                       reverb_memory r (engines s1) = map (\<lambda>_. 0) (reverb_memory r (engines s)) \<and>
                       reverb_memory r (engines s2) = map (\<lambda>_. 0) (reverb_memory r (engines s))))"
  using assms by (rule normal_then_double_press)

theorem double_press_keeps_flag_not_tail_witness:
  "pedal_mode (Flick_started\<lparr>bypass := \<lparr>bp_reverb = False, bp_tremolo = True, bp_delay = True\<rparr>,
                  engines := (engines Flick_started)\<lparr>plate_memory := [0.3, - 0.2, 0.1, 0.05]\<rparr>\<rparr>)
     = PEDAL_MODE_NORMAL \<and>
   (\<exists>s1 s2.
      handleNormalPress FOOTSWITCH_1 (HwReads_idle 0)
        (Flick_started\<lparr>bypass := \<lparr>bp_reverb = False, bp_tremolo = True, bp_delay = True\<rparr>,
                  engines := (engines Flick_started)\<lparr>plate_memory := [0.3, - 0.2, 0.1, 0.05]\<rparr>\<rparr>)
        = Inr s1 \<and>
      handleDoublePress FOOTSWITCH_1 (HwReads_idle 300) s1 = Inr s2 \<and>
      \<not> bp_reverb (bypass s2) \<and> pedal_mode s2 = PEDAL_MODE_TAP_TEMPO \<and>
      reverb_memory REVERB_PLATE (engines s2) = [0, 0, 0, 0])"
proof -
  let ?s = "Flick_started\<lparr>bypass := \<lparr>bp_reverb = False, bp_tremolo = True, bp_delay = True\<rparr>,
                  engines := (engines Flick_started)\<lparr>plate_memory := [0.3, - 0.2, 0.1, 0.05]\<rparr>\<rparr>"
  have m: "pedal_mode ?s = PEDAL_MODE_NORMAL" by (simp add: started_facts)
  have sw: "0 \<le> sw3 (HwReads_idle 300)" "sw3 (HwReads_idle 300) \<le> 2"
    by (simp_all add: idle_facts)
  have b: "\<not> bp_reverb (bypass ?s)" by simp
  have c: "current_reverb (engines ?s) = Some REVERB_PLATE" by (simp add: started_facts)
  have r: "reverb_memory REVERB_PLATE (engines ?s) = [0.3, - 0.2, 0.1, 0.05]"
    by (simp add: reverb_memory_def)
  from double_press_keeps_flag_not_tail [OF m sw, of "HwReads_idle 0"] b c r m
  show ?thesis by fastforce
qed



section \<open>Settings management: results\<close>

lemma updatePlateReverbParameters_keeps:
  assumes "updatePlateReverbParameters s = Inr s'"
  shows "reverb s' = reverb s" "mono_stereo_mode s' = mono_stereo_mode s"
    "polarity_mode s' = polarity_mode s" "bypass s' = bypass s" "tap_tempo s' = tap_tempo s"
    "SavedSettings s' = SavedSettings s"
  using assms
  by (auto simp add: updatePlateReverbParameters_def bind_fault_def split: sum.splits)

lemma updatePlateReverbParameters_returns:
  assumes "0 \<le> plate_mod_speed_pos (reverb s)" "plate_mod_speed_pos (reverb s) \<le> 2"
    "0 \<le> plate_mod_depth_pos (reverb s)" "plate_mod_depth_pos (reverb s) \<le> 2"
    "0 \<le> plate_mod_shape_pos (reverb s)" "plate_mod_shape_pos (reverb s) \<le> 2"
  shows "\<exists>s'. updatePlateReverbParameters s = Inr s'"
  using assms
  by (simp add: updatePlateReverbParameters_def array_read_def PLATE_TANK_MOD_SPEED_VALUES_def
        PLATE_TANK_MOD_DEPTH_VALUES_def PLATE_TANK_MOD_SHAPE_VALUES_def)

lemma updateReverbScales_keeps:
  "reverb (updateReverbScales m s) = reverb s"
  "mono_stereo_mode (updateReverbScales m s) = mono_stereo_mode s"
  "polarity_mode (updateReverbScales m s) = polarity_mode s"
  "bypass (updateReverbScales m s) = bypass s"
  "tap_tempo (updateReverbScales m s) = tap_tempo s"
  "SavedSettings (updateReverbScales m s) = SavedSettings s"
  by (simp_all add: updateReverbScales_def)

lemma loadSettings_assign_loaded:
  "settings_loaded (ps_settings (SavedSettings s)) (loadSettings_assign s)"
  "SavedSettings (loadSettings_assign s) = SavedSettings s"
  by (simp_all add: settings_loaded_def loadSettings_assign_def Let_def updateReverbScales_keeps)

lemma loadSettings_match:
  assumes "version (ps_settings (SavedSettings s)) = SETTINGS_VERSION"
  shows "loadSettings s = Some (updatePlateReverbParameters (loadSettings_assign s))"
  using assms by (subst loadSettings.simps) simp

lemma loadSettings_mismatch:
  assumes "version (ps_settings (SavedSettings s)) \<noteq> SETTINGS_VERSION"
  shows "loadSettings s = loadSettings (s\<lparr>SavedSettings := RestoreDefaults (SavedSettings s)\<rparr>)"
  using assms by (subst loadSettings.simps) simp

lemma load_result:
  assumes "version (ps_settings (SavedSettings s)) = SETTINGS_VERSION"
  shows "\<exists>r. loadSettings s = Some r \<and>
           (\<forall>s'. r = Inr s' \<longrightarrow>
                 ps_settings (SavedSettings s') = ps_settings (SavedSettings s) \<and>
                 settings_loaded (ps_settings (SavedSettings s)) s') \<and>
           (mod_positions_valid (ps_settings (SavedSettings s)) \<longrightarrow> (\<exists>s'. r = Inr s'))"
proof -
  let ?a = "loadSettings_assign s"
  have ld: "settings_loaded (ps_settings (SavedSettings s)) ?a"
    and sv: "SavedSettings ?a = SavedSettings s"
    by (rule loadSettings_assign_loaded)+
  have 1: "ps_settings (SavedSettings s') = ps_settings (SavedSettings s) \<and>
           settings_loaded (ps_settings (SavedSettings s)) s'"
    if "updatePlateReverbParameters ?a = Inr s'" for s'
    using updatePlateReverbParameters_keeps [OF that] ld sv
    by (simp add: settings_loaded_def)
  have 2: "\<exists>s'. updatePlateReverbParameters ?a = Inr s'"
    if "mod_positions_valid (ps_settings (SavedSettings s))"
    using that ld
    by (intro updatePlateReverbParameters_returns) (simp_all add: settings_loaded_def mod_positions_valid_def)
  show ?thesis
    unfolding loadSettings_match [OF assms] using 1 2 by blast
qed


text \<open>
  C3. The compiled-in default record carries the expected version, as the one built in
  \<open>main\<close> does. If the version of the record in use differs in any way from
  \<open>SETTINGS_VERSION\<close>, loading the settings is the same as loading them after the record
  has been replaced, field for field, by the default record (which is also persisted): it
  returns, the record in use afterwards is the default record, and every loaded variable
  holds the default record's value, whatever the mismatched record contained. If the
  version matches, loading returns with the record unchanged and every loaded variable
  holding the stored value. In both cases the only way not to end in such a state is that
  a modulation switch position of the record that is loaded lies outside 0..2.
\<close>

theorem loadSettings_version_contract:
  assumes "version (ps_default_settings (SavedSettings s)) = SETTINGS_VERSION"
  shows "(version (ps_settings (SavedSettings s)) \<noteq> SETTINGS_VERSION \<longrightarrow>
            loadSettings s =
              loadSettings (s\<lparr>SavedSettings := (SavedSettings s)
                 \<lparr>ps_settings := ps_default_settings (SavedSettings s),
                  ps_flash := Some (ps_default_settings (SavedSettings s))\<rparr>\<rparr>) \<and>
            (\<exists>r. loadSettings s = Some r \<and>
               (\<forall>s'. r = Inr s' \<longrightarrow>
                  ps_settings (SavedSettings s') = ps_default_settings (SavedSettings s) \<and>
                  settings_loaded (ps_default_settings (SavedSettings s)) s') \<and>
               (mod_positions_valid (ps_default_settings (SavedSettings s)) \<longrightarrow>
                  (\<exists>s'. r = Inr s')))) \<and>
         (version (ps_settings (SavedSettings s)) = SETTINGS_VERSION \<longrightarrow>
            (\<exists>r. loadSettings s = Some r \<and>
               (\<forall>s'. r = Inr s' \<longrightarrow>
                  ps_settings (SavedSettings s') = ps_settings (SavedSettings s) \<and>
                  settings_loaded (ps_settings (SavedSettings s)) s') \<and>
               (mod_positions_valid (ps_settings (SavedSettings s)) \<longrightarrow>
                  (\<exists>s'. r = Inr s'))))"
proof (intro conjI impI)
  assume mis: "version (ps_settings (SavedSettings s)) \<noteq> SETTINGS_VERSION"
  let ?d = "s\<lparr>SavedSettings := (SavedSettings s)
                 \<lparr>ps_settings := ps_default_settings (SavedSettings s),
                  ps_flash := Some (ps_default_settings (SavedSettings s))\<rparr>\<rparr>"
  have eq: "s\<lparr>SavedSettings := RestoreDefaults (SavedSettings s)\<rparr> = ?d"
    by (simp add: RestoreDefaults_def)
  show step: "loadSettings s = loadSettings ?d"
    using loadSettings_mismatch [OF mis] by (simp only: eq)
  have v: "version (ps_settings (SavedSettings ?d)) = SETTINGS_VERSION"
    using assms by simp
  from load_result [OF v]
  show "\<exists>r. loadSettings s = Some r \<and>
               (\<forall>s'. r = Inr s' \<longrightarrow>
                  ps_settings (SavedSettings s') = ps_default_settings (SavedSettings s) \<and>
                  settings_loaded (ps_default_settings (SavedSettings s)) s') \<and>
               (mod_positions_valid (ps_default_settings (SavedSettings s)) \<longrightarrow>
                  (\<exists>s'. r = Inr s'))"
    unfolding step by simp
next
  assume "version (ps_settings (SavedSettings s)) = SETTINGS_VERSION"
  then show "\<exists>r. loadSettings s = Some r \<and>
               (\<forall>s'. r = Inr s' \<longrightarrow>
                  ps_settings (SavedSettings s') = ps_settings (SavedSettings s) \<and>
                  settings_loaded (ps_settings (SavedSettings s)) s') \<and>
               (mod_positions_valid (ps_settings (SavedSettings s)) \<longrightarrow>
                  (\<exists>s'. r = Inr s'))"
    by (rule load_result)
qed

text \<open>
  A device whose durable record was written by an older firmware (version 7) comes up in
  \<open>main\<close> with the compiled-in defaults; the same record with the expected version comes
  up as stored.
\<close>

theorem loadSettings_version_contract_witness:
  "version defaultSettings = SETTINGS_VERSION \<and>
   version (defaultSettings\<lparr>version := 7, decay := 0.1, tank_mod_speed_pos := 0,
              bypass_reverb := False, s_tapped_delay_samples := 12000\<rparr>) \<noteq> SETTINGS_VERSION \<and>
   (\<exists>s'. main_settings
            (Some (defaultSettings\<lparr>version := 7, decay := 0.1, tank_mod_speed_pos := 0,
                     bypass_reverb := False, s_tapped_delay_samples := 12000\<rparr>))
            (ReverbEngines_silent 4) = Some (Inr s') \<and>
      ps_settings (SavedSettings s') = defaultSettings \<and>
      plate_decay (reverb s') = 0.8 \<and> plate_mod_speed_pos (reverb s') = 2 \<and>
      bp_reverb (bypass s') \<and> tapped_delay_samples (tap_tempo s') = 0) \<and>
   (\<exists>s'. main_settings
            (Some (defaultSettings\<lparr>decay := 0.1, tank_mod_speed_pos := 0,
                     bypass_reverb := False, s_tapped_delay_samples := 12000\<rparr>))
            (ReverbEngines_silent 4) = Some (Inr s') \<and>
      ps_settings (SavedSettings s') =
        defaultSettings\<lparr>decay := 0.1, tank_mod_speed_pos := 0,
                          bypass_reverb := False, s_tapped_delay_samples := 12000\<rparr> \<and>
      plate_decay (reverb s') = 0.1 \<and> plate_mod_speed_pos (reverb s') = 0 \<and>
      \<not> bp_reverb (bypass s') \<and> tapped_delay_samples (tap_tempo s') = 12000)"
proof -
  let ?old = "defaultSettings\<lparr>version := 7, decay := 0.1, tank_mod_speed_pos := 0,
              bypass_reverb := False, s_tapped_delay_samples := 12000\<rparr>"
  let ?cur = "defaultSettings\<lparr>decay := 0.1, tank_mod_speed_pos := 0,
              bypass_reverb := False, s_tapped_delay_samples := 12000\<rparr>"
  let ?eng = "(ReverbEngines_silent 4)\<lparr>current_reverb := Some REVERB_PLATE\<rparr>"
  let ?s = "Flick_globals (PersistentStorage_Init defaultSettings (Some ?old)) ?eng"
  let ?t = "Flick_globals (PersistentStorage_Init defaultSettings (Some ?cur)) ?eng"
  have v: "version defaultSettings = SETTINGS_VERSION" by (simp add: defaultSettings_def)
  have vo: "version ?old \<noteq> SETTINGS_VERSION" by (simp add: SETTINGS_VERSION_def)
  have valid: "mod_positions_valid defaultSettings" "mod_positions_valid ?cur"
    by (simp_all add: mod_positions_valid_def defaultSettings_def ReverbOrchestrator_new_def)
  have ds: "ps_default_settings (SavedSettings ?s) = defaultSettings"
           "ps_settings (SavedSettings ?s) = ?old"
    by (simp_all add: Flick_globals_def PersistentStorage_Init_def)
  have dt: "ps_default_settings (SavedSettings ?t) = defaultSettings"
           "ps_settings (SavedSettings ?t) = ?cur"
    by (simp_all add: Flick_globals_def PersistentStorage_Init_def)
  have dvs: "version (ps_default_settings (SavedSettings ?s)) = SETTINGS_VERSION"
    by (simp only: ds v)
  have dvt: "version (ps_default_settings (SavedSettings ?t)) = SETTINGS_VERSION"
    by (simp only: dt v)
  have mis: "version (ps_settings (SavedSettings ?s)) \<noteq> SETTINGS_VERSION"
    by (simp only: ds vo not_False_eq_True)
  have mat: "version (ps_settings (SavedSettings ?t)) = SETTINGS_VERSION"
    by (simp only: dt) (simp add: v)
  have "\<exists>r. loadSettings ?s = Some r \<and>
          (\<forall>s'. r = Inr s' \<longrightarrow>
             ps_settings (SavedSettings s') = defaultSettings \<and> settings_loaded defaultSettings s') \<and>
          (\<exists>s'. r = Inr s')"
    using loadSettings_version_contract [OF dvs] mis valid(1) unfolding ds by blast
  then obtain s' where 1: "main_settings (Some ?old) (ReverbEngines_silent 4) = Some (Inr s')"
    and 2: "ps_settings (SavedSettings s') = defaultSettings"
    and 3: "settings_loaded defaultSettings s'"
    unfolding main_settings_def by blast
  have "\<exists>r. loadSettings ?t = Some r \<and>
          (\<forall>s'. r = Inr s' \<longrightarrow>
             ps_settings (SavedSettings s') = ?cur \<and> settings_loaded ?cur s') \<and>
          (\<exists>s'. r = Inr s')"
    using loadSettings_version_contract [OF dvt] mat valid(2) unfolding dt by blast
  then obtain t' where 4: "main_settings (Some ?cur) (ReverbEngines_silent 4) = Some (Inr t')"
    and 5: "ps_settings (SavedSettings t') = ?cur"
    and 6: "settings_loaded ?cur t'"
    unfolding main_settings_def by blast
  from 3 have a: "plate_decay (reverb s') = 0.8 \<and> plate_mod_speed_pos (reverb s') = 2 \<and>
      bp_reverb (bypass s') \<and> tapped_delay_samples (tap_tempo s') = 0"
    by (simp add: settings_loaded_def defaultSettings_def ReverbOrchestrator_new_def)
  from 6 have b: "plate_decay (reverb t') = 0.1 \<and> plate_mod_speed_pos (reverb t') = 0 \<and>
      \<not> bp_reverb (bypass t') \<and> tapped_delay_samples (tap_tempo t') = 12000"
    by (simp add: settings_loaded_def)
  from v vo 1 2 a 4 5 b show ?thesis by blast
qed



section \<open>Audio routing: results\<close>

lemma loop_length:
  "length (fst (AudioCallback_loop chain mode polarity fx frames)) = length frames"
  by (induction frames arbitrary: fx) (simp_all add: split_beta Let_def)

lemma loop_mimo_silent:
  "map snd (fst (AudioCallback_loop chain MS_MODE_MIMO polarity fx frames)) = map (\<lambda>_. 0) frames"
  by (induction frames arbitrary: fx)
     (simp_all add: split_beta Let_def AudioCallback_sample_def output_routing_def)

lemma loop_mono_in:
  assumes "mode = MS_MODE_MIMO \<or> mode = MS_MODE_MISO" and "map fst frames = map fst frames'"
  shows "AudioCallback_loop chain mode polarity fx frames =
         AudioCallback_loop chain mode polarity fx frames'"
  using assms(2)
proof (induction frames arbitrary: fx frames')
  case Nil
  then show ?case by simp
next
  case (Cons f fs)
  then obtain g gs where g: "frames' = g # gs" "fst f = fst g" "map fst fs = map fst gs"
    by (cases frames') auto
  have "AudioCallback_sample chain mode polarity fx f = AudioCallback_sample chain mode polarity fx g"
    using assms(1) g(2) by (auto simp add: AudioCallback_sample_def input_routing_def Let_def)
  with Cons.IH [OF g(3)] show ?case by (simp add: g(1))
qed

text \<open>
  C4 (as amended). In the mono-out mode \<open>MS_MODE_MIMO\<close>, for every sample of every block,
  output channel 1 carries the mean of the two internal channels (times the left
  polarity) and output channel 2 is silent: it is 0, not a copy of channel 1. In the other
  modes output channel 2 carries its own signal, the right internal channel times the right
  polarity. In the mono-in modes \<open>MS_MODE_MIMO\<close> and \<open>MS_MODE_MISO\<close> input channel 2 is
  ignored: the channel-1 input feeds both internal channels, and two blocks that agree on
  channel 1 give the same outputs and the same state; in \<open>MS_MODE_SISO\<close> both inputs are
  used. This holds whatever the stages between the two routing steps compute.
\<close>

theorem AudioCallback_routing:
  "(AudioCallback_sample chain MS_MODE_MIMO polarity fx frame =
      (case chain fx (fst frame, fst frame) of
         ((s_L, s_R), fx') \<Rightarrow>
           ((((s_L * 0.5) + (s_R * 0.5)) * (if polarity = POLARITY_INVERT_LEFT then - 1 else 1), 0),
            fx'))) \<and>
   map snd (fst (AudioCallback_loop chain MS_MODE_MIMO polarity fx frames)) = map (\<lambda>_. 0) frames \<and>
   (mode \<noteq> MS_MODE_MIMO \<longrightarrow>
      AudioCallback_sample chain mode polarity fx frame =
        (case chain fx (input_routing mode frame) of
           ((s_L, s_R), fx') \<Rightarrow>
             ((s_L * (if polarity = POLARITY_INVERT_LEFT then - 1 else 1),
               s_R * (if polarity = POLARITY_INVERT_RIGHT then - 1 else 1)), fx'))) \<and>
   (mode = MS_MODE_MIMO \<or> mode = MS_MODE_MISO \<longrightarrow>
      input_routing mode frame = (fst frame, fst frame) \<and>
      (map fst frames = map fst frames' \<longrightarrow>
         AudioCallback_loop chain mode polarity fx frames =
         AudioCallback_loop chain mode polarity fx frames')) \<and>
   input_routing MS_MODE_SISO frame = frame"
proof (intro conjI impI)
  show "AudioCallback_sample chain MS_MODE_MIMO polarity fx frame =
      (case chain fx (fst frame, fst frame) of
         ((s_L, s_R), fx') \<Rightarrow>
           ((((s_L * 0.5) + (s_R * 0.5)) * (if polarity = POLARITY_INVERT_LEFT then - 1 else 1), 0),
            fx'))"
    by (simp add: AudioCallback_sample_def input_routing_def output_routing_def Let_def split_beta)
  show "map snd (fst (AudioCallback_loop chain MS_MODE_MIMO polarity fx frames)) = map (\<lambda>_. 0) frames"
    by (rule loop_mimo_silent)
  show "input_routing MS_MODE_SISO frame = frame"
    by (simp add: input_routing_def Let_def MS_MODE_SISO_def MS_MODE_MIMO_def MS_MODE_MISO_def)
next
  assume "mode \<noteq> MS_MODE_MIMO"
  then show "AudioCallback_sample chain mode polarity fx frame =
        (case chain fx (input_routing mode frame) of
           ((s_L, s_R), fx') \<Rightarrow>
             ((s_L * (if polarity = POLARITY_INVERT_LEFT then - 1 else 1),
               s_R * (if polarity = POLARITY_INVERT_RIGHT then - 1 else 1)), fx'))"
    by (simp add: AudioCallback_sample_def output_routing_def Let_def split_beta)
next
  assume "mode = MS_MODE_MIMO \<or> mode = MS_MODE_MISO"
  then show "input_routing mode frame = (fst frame, fst frame)"
    by (auto simp add: input_routing_def Let_def)
next
  assume "mode = MS_MODE_MIMO \<or> mode = MS_MODE_MISO" and "map fst frames = map fst frames'"
  then show "AudioCallback_loop chain mode polarity fx frames =
         AudioCallback_loop chain mode polarity fx frames'"
    by (rule loop_mono_in)
qed

theorem AudioCallback_routing_witness:
  "MS_MODE_MISO \<noteq> MS_MODE_MIMO \<and>
   fst (AudioCallback_sample (\<lambda>fx s. (s, fx)) MS_MODE_MISO POLARITY_INVERT_RIGHT () (0.5, 0.25))
     = (0.5, - 0.5) \<and>
   fst (AudioCallback_loop (\<lambda>fx s. (s, fx)) MS_MODE_MISO POLARITY_NORMAL () [(1, 0), (0.5, 0.25)])
     = fst (AudioCallback_loop (\<lambda>fx s. (s, fx)) MS_MODE_MISO POLARITY_NORMAL () [(1, 1), (0.5, - 1)])"
proof -
  have ne: "MS_MODE_MISO \<noteq> MS_MODE_MIMO" by (simp add: MS_MODE_MISO_def MS_MODE_MIMO_def)
  have m: "MS_MODE_MISO = MS_MODE_MIMO \<or> MS_MODE_MISO = MS_MODE_MISO" by simp
  have fr: "map fst [(1, 0), (0.5, 0.25 :: real)] = map fst [(1, 1), (0.5 :: real, - 1 :: real)]" by simp
  from AudioCallback_routing [of "\<lambda>fx s. (s, fx)" POLARITY_INVERT_RIGHT "()" "(0.5, 0.25)" "[]"
         MS_MODE_MISO "[]"] ne
  have a: "fst (AudioCallback_sample (\<lambda>fx s. (s, fx)) MS_MODE_MISO POLARITY_INVERT_RIGHT () (0.5, 0.25))
     = (0.5, - 0.5)"
    by (simp add: input_routing_def Let_def POLARITY_INVERT_RIGHT_def POLARITY_INVERT_LEFT_def)
  from AudioCallback_routing [of "\<lambda>fx s. (s, fx)" POLARITY_NORMAL "()" "(0, 0)" "[(1, 0), (0.5, 0.25)]"
         MS_MODE_MISO "[(1, 1), (0.5, - 1)]"] m fr
  have b: "AudioCallback_loop (\<lambda>fx s. (s, fx)) MS_MODE_MISO POLARITY_NORMAL () [(1, 0), (0.5, 0.25)]
     = AudioCallback_loop (\<lambda>fx s. (s, fx)) MS_MODE_MISO POLARITY_NORMAL () [(1, 1), (0.5, - 1)]"
    by blast
  from ne a b show ?thesis by simp
qed

text \<open>
  C4 as stated fails: in \<open>MS_MODE_MIMO\<close>, with the stages between the routing steps
  passing both channels through, the input block (1, 0), (0.5, 0.25) gives 1 and 0.5 on
  output channel 1 and 0 and 0 on output channel 2.
\<close>

theorem AudioCallback_routing_counterexample:
  "fst (AudioCallback_loop passthrough MS_MODE_MIMO POLARITY_NORMAL () [(1, 0), (0.5, 0.25)])
     = [(1, 0), (0.5, 0)]"
  by (simp add: AudioCallback_sample_def input_routing_def output_routing_def Let_def
        POLARITY_NORMAL_def POLARITY_INVERT_LEFT_def passthrough_def)


section \<open>Tremolo: results\<close>

lemma SineTremolo_gain:
  assumes "waveform (tr_osc t) = WAVE_SIN"
  shows "\<exists>t'. SineTremolo_ProcessSample (in_L, in_R) (Tremolo_SetDepth d t) =
            Some ((in_L * ((1 - d / 2) + sin (phase (tr_osc t) * TWOPI_F) * (d / 2)),
                   in_R * ((1 - d / 2) + sin (phase (tr_osc t) * TWOPI_F) * (d / 2))), t') \<and>
          Tremolo_GetLastLFOValue t' = (1 - d / 2) + sin (phase (tr_osc t) * TWOPI_F) * (d / 2)"
  using assms
  by (simp add: SineTremolo_ProcessSample_def Tremolo_SetDepth_def FlickOscillator_Process_def
        FlickOscillator_SetFreq_def FlickOscillator_SetAmp_def Let_def Tremolo_GetLastLFOValue_def
        algebra_simps)

lemma arctan_25_nonzero: "arctan (25::real) \<noteq> 0"
  by (simp add: arctan_eq_zero_iff)

lemma SquareTremolo_gain:
  assumes "waveform (tr_osc t) = WAVE_SQUARE_ROUNDED" and "d \<noteq> 0"
  shows "\<exists>t'. SquareTremolo_ProcessSample (in_L, in_R) (Tremolo_SetDepth d t) =
            Some ((in_L * ((1 - d / 2) + (arctan (sin (TWOPI_F * phase (tr_osc t)) / 0.04) / arctan (1 / 0.04)) * (d / 2)),
                   in_R * ((1 - d / 2) + (arctan (sin (TWOPI_F * phase (tr_osc t)) / 0.04) / arctan (1 / 0.04)) * (d / 2))), t') \<and>
          Tremolo_GetLastLFOValue t' =
            (1 - d / 2) + (arctan (sin (TWOPI_F * phase (tr_osc t)) / 0.04) / arctan (1 / 0.04)) * (d / 2)"
  using assms arctan_25_nonzero
  by (simp add: SquareTremolo_ProcessSample_def Tremolo_SetDepth_def FlickOscillator_Process_def
        FlickOscillator_SetFreq_def FlickOscillator_SetAmp_def Let_def Tremolo_GetLastLFOValue_def
        fdiv_def algebra_simps)

lemma SquareTremolo_zero_depth:
  assumes "waveform (tr_osc t) = WAVE_SQUARE_ROUNDED"
  shows "SquareTremolo_ProcessSample inp (Tremolo_SetDepth 0 t) = None"
  using assms
  by (simp add: SquareTremolo_ProcessSample_def Tremolo_SetDepth_def FlickOscillator_Process_def
        FlickOscillator_SetFreq_def FlickOscillator_SetAmp_def Let_def fdiv_def)

text \<open>
  C9. The sine tremolo multiplies both channels by \<open>(1 - depth/2) + lfo * (depth/2)\<close> with
  \<open>lfo\<close> the sine of the oscillator phase, and \<open>GetLastLFOValue\<close> returns that gain
  (\<open>SineTremolo_gain\<close>); the square tremolo does the same with the arctangent-clipped sine
  divided by \<open>arctan 25\<close> whenever the depth is not 0 (\<open>SquareTremolo_gain\<close>). With the
  depth set to 0, where the formula gives the gain 1, the rounded square of the oscillator
  divides the amplitude 0 by the scale 0: the oscillator sample, the stored gain and both
  outputs are not numbers.
\<close>

theorem SquareTremolo_zero_depth_not_a_number:
  "SquareTremolo_ProcessSample (1, 1) (Tremolo_SetDepth 0 (Tremolo_init WAVE_SQUARE_ROUNDED)) = None \<and>
   fst (FlickOscillator_Process
          (FlickOscillator_SetAmp (0 * 0.5) (tr_osc (Tremolo_init WAVE_SQUARE_ROUNDED)))) = None"
proof -
  have w: "waveform (tr_osc (Tremolo_init WAVE_SQUARE_ROUNDED)) = WAVE_SQUARE_ROUNDED"
    by (simp add: Tremolo_init_def)
  have "fst (FlickOscillator_Process
          (FlickOscillator_SetAmp (0 * 0.5) (tr_osc (Tremolo_init WAVE_SQUARE_ROUNDED)))) = None"
    by (simp add: Tremolo_init_def FlickOscillator_Process_def FlickOscillator_SetAmp_def fdiv_def)
  with SquareTremolo_zero_depth [OF w, of "(1, 1)"] show ?thesis by (rule conjI)
qed


end
